theory Spec2Isabelle
  imports Main
begin

section \<open>JavaScript values\<close>

text \<open>
  The values that cross the REST client: parsed JSON plus \<^verbatim>\<open>undefined\<close>. A parsed
  object is the list of its own properties in insertion order (keys unique). Numbers are
  integers here: every number these payloads carry is a quantity, a count or a page
  bound (\<^verbatim>\<open>INTEGER\<close> columns of the schema), exact in a double below \<open>2 ^ 53\<close>.
\<close>

datatype json =
    JUndefined
  | JNull
  | JBool bool
  | JNum int
  | JStr string
  | JArr "json list"
  | JObj "(string \<times> json) list"

text \<open>The exceptions a promise of this code can reject with.\<close>

datatype exn = Error string | TypeError | SyntaxError

text \<open>Truthiness, as \<^verbatim>\<open>||\<close>, \<^verbatim>\<open>!\<close> and \<^verbatim>\<open>if\<close> test it.\<close>

fun truthy :: "json \<Rightarrow> bool" where
  "truthy JUndefined = False"
| "truthy JNull = False"
| "truthy (JBool b) = b"
| "truthy (JNum n) = (n \<noteq> 0)"
| "truthy (JStr s) = (s \<noteq> [])"
| "truthy (JArr xs) = True"
| "truthy (JObj kvs) = True"

text \<open>
  Property read \<^verbatim>\<open>v.k\<close> for a key that no prototype defines (\<^verbatim>\<open>error\<close>,
  \<^verbatim>\<open>message\<close>, \<^verbatim>\<open>data\<close>): a \<^verbatim>\<open>TypeError\<close> on \<^verbatim>\<open>null\<close> and \<^verbatim>\<open>undefined\<close>, the own
  property of an object, \<^verbatim>\<open>undefined\<close> on everything else.
\<close>

fun js_get :: "json \<Rightarrow> string \<Rightarrow> exn + json" where
  "js_get JUndefined k = Inl TypeError"
| "js_get JNull k = Inl TypeError"
| "js_get (JObj kvs) k = (case map_of kvs k of None \<Rightarrow> Inr JUndefined | Some v \<Rightarrow> Inr v)"
| "js_get v k = Inr JUndefined"

text \<open>Optional chaining \<^verbatim>\<open>v?.k\<close>: \<^verbatim>\<open>undefined\<close> where \<^verbatim>\<open>v\<close> is nullish.\<close>

fun js_get_opt :: "json \<Rightarrow> string \<Rightarrow> json" where
  "js_get_opt (JObj kvs) k = (case map_of kvs k of None \<Rightarrow> JUndefined | Some v \<Rightarrow> v)"
| "js_get_opt v k = JUndefined"

text \<open>Decimal digits of a natural number, and \<^verbatim>\<open>String(n)\<close> of an integer.\<close>

definition digit :: "nat \<Rightarrow> char" where
  "digit d = ''0123456789'' ! (d mod 10)"

function digits :: "nat \<Rightarrow> string" where
  "digits n = (if n < 10 then [digit n] else digits (n div 10) @ [digit (n mod 10)])"
  by pat_completeness auto
termination
  by (relation "measure (\<lambda>n. n)") auto

definition String_of_int :: "int \<Rightarrow> string" where
  "String_of_int i = (if i < 0 then ''-'' @ digits (nat (- i)) else digits (nat i))"

text \<open>Joining with a separator, as \<^verbatim>\<open>Array.prototype.join\<close> does.\<close>

fun join :: "string \<Rightarrow> string list \<Rightarrow> string" where
  "join sep [] = []"
| "join sep [x] = x"
| "join sep (x # y # ys) = x @ sep @ join sep (y # ys)"

text \<open>
  \<^verbatim>\<open>String(v)\<close>, the conversion that \<^verbatim>\<open>new Error(v)\<close> and template literals apply.
  Inside an array \<^verbatim>\<open>null\<close> and \<^verbatim>\<open>undefined\<close> print as the empty string.
\<close>

fun ToString :: "json \<Rightarrow> string" where
  "ToString JUndefined = ''undefined''"
| "ToString JNull = ''null''"
| "ToString (JBool b) = (if b then ''true'' else ''false'')"
| "ToString (JNum n) = String_of_int n"
| "ToString (JStr s) = s"
| "ToString (JArr xs) =
     join '','' (map (\<lambda>x. if x = JNull \<or> x = JUndefined then [] else ToString x) xs)"
| "ToString (JObj kvs) = ''[object Object]''"

section \<open>The REST client (lib/api.ts)\<close>

text \<open>
  What an asynchronous function of the client depends on: the build-time variable
  \<^verbatim>\<open>VITE_API_URL\<close>, the session that \<^verbatim>\<open>supabase.auth.getSession()\<close> resolves with
  (\<^verbatim>\<open>null\<close> when nobody is signed in) and the network, a function from the arguments of
  \<^verbatim>\<open>fetch\<close> to a rejection or a response. \<^verbatim>\<open>response.json()\<close> rejects with a
  \<^verbatim>\<open>SyntaxError\<close> when the body is not JSON.
\<close>

datatype body = JSON_stringify json

text \<open>The field \<^verbatim>\<open>method\<close> of \<^verbatim>\<open>RequestInit\<close> is \<open>method'\<close> here.\<close>

record RequestInit =
  method' :: "string option"
  body :: "body option"
  headers :: "(string \<times> string) list option"

record Response =
  ok :: bool
  json :: "exn + json"

record Session =
  access_token :: string

record env =
  VITE_API_URL :: "string option"
  session :: "Session option"
  fetch :: "string \<Rightarrow> RequestInit \<Rightarrow> exn + Response"

text \<open>
  The outcome of a call: the requests handed to \<^verbatim>\<open>fetch\<close>, in order, and the value the
  promise settles with (\<open>Inl\<close> a rejection).
\<close>

type_synonym outcome = "(string \<times> RequestInit) list \<times> (exn + json)"

definition API_BASE_URL :: "env \<Rightarrow> string" where
  "API_BASE_URL e =
     (case VITE_API_URL e of
        None \<Rightarrow> ''http://localhost:8001/api''
      | Some u \<Rightarrow> if u = [] then ''http://localhost:8001/api'' else u)"

definition getAuthToken :: "env \<Rightarrow> string option" where
  "getAuthToken e =
     (case session e of
        None \<Rightarrow> None
      | Some s \<Rightarrow> if access_token s = [] then None else Some (access_token s))"

text \<open>
  Assignment \<^verbatim>\<open>obj[k] = v\<close> on an object literal: an existing key keeps its place, a
  new key goes last. The spread \<^verbatim>\<open>{...a, ...b}\<close> assigns the properties of \<^verbatim>\<open>b\<close> in
  order.
\<close>

fun obj_set :: "string \<Rightarrow> 'v \<Rightarrow> (string \<times> 'v) list \<Rightarrow> (string \<times> 'v) list" where
  "obj_set k v [] = [(k, v)]"
| "obj_set k v ((k', v') # kvs) =
     (if k' = k then (k, v) # kvs else (k', v') # obj_set k v kvs)"

fun obj_spread :: "(string \<times> 'v) list \<Rightarrow> (string \<times> 'v) list \<Rightarrow> (string \<times> 'v) list" where
  "obj_spread obj [] = obj"
| "obj_spread obj ((k, v) # kvs) = obj_spread (obj_set k v obj) kvs"

definition request_headers :: "env \<Rightarrow> RequestInit \<Rightarrow> (string \<times> string) list" where
  "request_headers e options =
     (let hs = obj_spread [(''Content-Type'', ''application/json'')]
                 (case headers options of None \<Rightarrow> [] | Some h \<Rightarrow> h)
      in case getAuthToken e of
           None \<Rightarrow> hs
         | Some token \<Rightarrow>
             if token = [] then hs else obj_set ''Authorization'' (''Bearer '' @ token) hs)"

definition apiRequest :: "env \<Rightarrow> string \<Rightarrow> RequestInit \<Rightarrow> outcome" where
  "apiRequest e endpoint options =
     (let init = options\<lparr>headers := Some (request_headers e options)\<rparr>;
          url = API_BASE_URL e @ endpoint
      in ([(url, init)],
          case fetch e url init of
            Inl rejected \<Rightarrow> Inl rejected
          | Inr response \<Rightarrow>
              (case json response of
                 Inl rejected \<Rightarrow> Inl rejected
               | Inr data \<Rightarrow>
                   if \<not> ok response then
                     (case js_get data ''error'' of
                        Inl thrown \<Rightarrow> Inl thrown
                      | Inr err \<Rightarrow>
                          (let m = js_get_opt err ''message''
                           in Inl (Error (if truthy m then ToString m
                                          else ''API request failed''))))
                   else js_get data ''data'')))"

text \<open>\<^verbatim>\<open>options = {}\<close>, the default of the second parameter.\<close>

definition no_options :: RequestInit where
  "no_options = \<lparr>method' = None, body = None, headers = None\<rparr>"

subsection \<open>Redistribution API\<close>

record RedistributionItem =
  sku :: string
  quantity :: int

record CreateRedistributionRequest =
  from_kiosk_id :: string
  to_kiosk_id :: string
  items :: "RedistributionItem list"
  client_req_id :: string
  signature :: string
  public_key :: string

definition item_json :: "RedistributionItem \<Rightarrow> json" where
  "item_json i =
     JObj [(''sku'', JStr (RedistributionItem.sku i)),
           (''quantity'', JNum (RedistributionItem.quantity i))]"

definition request_json :: "CreateRedistributionRequest \<Rightarrow> json" where
  "request_json r =
     JObj [(''from_kiosk_id'', JStr (from_kiosk_id r)),
           (''to_kiosk_id'', JStr (to_kiosk_id r)),
           (''items'', JArr (map item_json (items r))),
           (''client_req_id'', JStr (client_req_id r)),
           (''signature'', JStr (signature r)),
           (''public_key'', JStr (public_key r))]"

definition createRedistribution :: "env \<Rightarrow> CreateRedistributionRequest \<Rightarrow> outcome" where
  "createRedistribution e request =
     apiRequest e ''/redistributions''
       \<lparr>method' = Some ''POST'',
        body = Some (JSON_stringify (request_json request)),
        headers = None\<rparr>"

definition approveRedistribution :: "env \<Rightarrow> string \<Rightarrow> string \<Rightarrow> string option \<Rightarrow> outcome" where
  "approveRedistribution e redistributionId adminWallet clientReqId =
     apiRequest e (''/redistributions/'' @ redistributionId @ ''/approve'')
       \<lparr>method' = Some ''POST'',
        body = Some (JSON_stringify
                 (JObj [(''admin_wallet'', JStr adminWallet),
                        (''client_req_id'',
                           case clientReqId of None \<Rightarrow> JUndefined | Some c \<Rightarrow> JStr c)])),
        headers = None\<rparr>"

definition getRedistribution :: "env \<Rightarrow> string \<Rightarrow> outcome" where
  "getRedistribution e rid = apiRequest e (''/redistributions/'' @ rid) no_options"

text \<open>
  \<^verbatim>\<open>URLSearchParams.toString()\<close>: the \<^verbatim>\<open>application/x-www-form-urlencoded\<close>
  serialisation of the appended pairs, byte by byte over the UTF-8 encoding.
\<close>

definition hex_digit :: "nat \<Rightarrow> char" where
  "hex_digit d = ''0123456789ABCDEF'' ! (d mod 16)"

definition urlencode_byte :: "char \<Rightarrow> string" where
  "urlencode_byte c =
     (if c = CHR '' '' then ''+''
      else if c \<in> set (''*-._0123456789'' @ ''ABCDEFGHIJKLMNOPQRSTUVWXYZ''
                          @ ''abcdefghijklmnopqrstuvwxyz'') then [c]
      else [CHR ''%'', hex_digit (of_char c div 16), hex_digit (of_char c mod 16)])"

definition urlencode :: "string \<Rightarrow> string" where
  "urlencode s = concat (map urlencode_byte s)"

definition URLSearchParams_toString :: "(string \<times> string) list \<Rightarrow> string" where
  "URLSearchParams_toString ps =
     join ''&'' (map (\<lambda>(k, v). urlencode k @ ''='' @ urlencode v) ps)"

text \<open>
  \<^verbatim>\<open>ListRedistributionsParams\<close> is an object of optional properties: the list of the
  properties the caller wrote, in that order; \<^verbatim>\<open>Object.entries\<close> walks them and the
  \<^verbatim>\<open>undefined\<close> ones are skipped.
\<close>

type_synonym ListRedistributionsParams = "(string \<times> json) list"

definition query_endpoint :: "string \<Rightarrow> ListRedistributionsParams option \<Rightarrow> string" where
  "query_endpoint path params =
     (let queryParams =
            (case params of
               None \<Rightarrow> []
             | Some ps \<Rightarrow> map (\<lambda>(k, v). (k, ToString v))
                            (filter (\<lambda>(k, v). v \<noteq> JUndefined) ps));
          queryString = URLSearchParams_toString queryParams
      in if queryString \<noteq> [] then path @ ''?'' @ queryString else path)"

definition listRedistributions :: "env \<Rightarrow> ListRedistributionsParams option \<Rightarrow> outcome" where
  "listRedistributions e params =
     apiRequest e (query_endpoint ''/redistributions'' params) no_options"

subsection \<open>Command, transaction and health API\<close>

definition getCommand :: "env \<Rightarrow> string \<Rightarrow> outcome" where
  "getCommand e commandId = apiRequest e (''/commands/'' @ commandId) no_options"

definition getTransaction :: "env \<Rightarrow> string \<Rightarrow> outcome" where
  "getTransaction e txid = apiRequest e (''/tx/'' @ txid) no_options"

definition listTransactions :: "env \<Rightarrow> ListRedistributionsParams option \<Rightarrow> outcome" where
  "listTransactions e params =
     apiRequest e (query_endpoint ''/transactions'' params) no_options"

definition getHealth :: "env \<Rightarrow> outcome" where
  "getHealth e = apiRequest e ''/health'' no_options"

text \<open>The exported functions of the module, each with its arguments.\<close>

datatype api_call =
    CreateRedistribution CreateRedistributionRequest
  | ApproveRedistribution string string "string option"
  | GetRedistribution string
  | ListRedistributions "ListRedistributionsParams option"
  | GetCommand string
  | GetTransaction string
  | ListTransactions "ListRedistributionsParams option"
  | GetHealth

fun call :: "env \<Rightarrow> api_call \<Rightarrow> outcome" where
  "call e (CreateRedistribution request) = createRedistribution e request"
| "call e (ApproveRedistribution rid wallet creq) = approveRedistribution e rid wallet creq"
| "call e (GetRedistribution rid) = getRedistribution e rid"
| "call e (ListRedistributions params) = listRedistributions e params"
| "call e (GetCommand cid) = getCommand e cid"
| "call e (GetTransaction txid) = getTransaction e txid"
| "call e (ListTransactions params) = listTransactions e params"
| "call e GetHealth = getHealth e"

section \<open>The Redistribution page (pages/Redistribution.tsx)\<close>

subsection \<open>Status badge\<close>

text \<open>
  \<^verbatim>\<open>getStatusColor\<close>: a \<^verbatim>\<open>switch\<close> over the status string with six cases and a
  \<^verbatim>\<open>default\<close>.
\<close>

definition getStatusColor :: "string \<Rightarrow> string" where
  "getStatusColor status =
     (if status = ''requested'' then ''bg-warning/30 text-warning''
      else if status = ''approved'' then ''bg-blue-500/30 text-blue-500''
      else if status = ''submitted'' then ''bg-purple-500/30 text-purple-500''
      else if status = ''fulfilled'' then ''bg-green-500/30 text-green-500''
      else if status = ''reconciled'' then ''bg-emerald-500/30 text-emerald-500''
      else if status = ''failed'' then ''bg-destructive/30 text-destructive''
      else ''bg-secondary'')"

subsection \<open>Data the page holds\<close>

text \<open>
  The \<^verbatim>\<open>Redistribution\<close> and \<^verbatim>\<open>ListRedistributionsResponse\<close> interfaces of
  \<^verbatim>\<open>lib/api.ts\<close>, the types the page's queries are cast to.
\<close>

record Redistribution =
  id :: string
  from_kiosk_id :: string
  to_kiosk_id :: string
  status :: string
  items :: "json list"
  pricing :: "json option"
  blockchain_ref :: "string option"
  txid :: "string option"
  created_at :: string
  updated_at :: string
  completed_at :: "string option"

record ListRedistributionsResponse =
  items :: "Redistribution list"
  total :: int
  limit :: int
  offset :: int

text \<open>
  The toasts shown. \<open>toast_error_runtime\<close> shows the message of an exception of the
  runtime (\<^verbatim>\<open>TypeError\<close>, \<^verbatim>\<open>SyntaxError\<close>), a non-empty text the runtime chooses.
\<close>

datatype toast = toast_success string | toast_error string | toast_error_runtime exn

text \<open>
  The state of the \<^verbatim>\<open>Redistribution\<close> component: its four \<^verbatim>\<open>useState\<close> cells, the
  \<^verbatim>\<open>data\<close> of its four queries (\<open>None\<close> while \<^verbatim>\<open>undefined\<close>), the query keys handed to
  \<^verbatim>\<open>invalidateQueries\<close> and the toasts shown, both in order. The query library puts
  the answer of the server into \<^verbatim>\<open>data\<close> each time a poll returns; the component
  itself only reads it.
\<close>

record page =
  selectedRedist :: "Redistribution option"
  approveDialogOpen :: bool
  detailsDialogOpen :: bool
  selectedForDetails :: "Redistribution option"
  redistributionsResponse :: "ListRedistributionsResponse option"
  inProgressResponse :: "ListRedistributionsResponse option"
  adminWallet :: "string option"
  kiosks :: "(string \<times> string) list option"
  invalidated :: "string list list"
  toasts :: "toast list"

text \<open>The query functions of the two polling queries.\<close>

definition admin_redistributions_queryFn :: "env \<Rightarrow> outcome" where
  "admin_redistributions_queryFn e =
     listRedistributions e (Some [(''status'', JStr ''requested'')])"

definition admin_redistributions_progress_queryFn :: "env \<Rightarrow> outcome" where
  "admin_redistributions_progress_queryFn e = listRedistributions e (Some [])"

definition redistributions :: "page \<Rightarrow> Redistribution list" where
  "redistributions st =
     (case redistributionsResponse st of
        None \<Rightarrow> []
      | Some r \<Rightarrow> ListRedistributionsResponse.items r)"

definition allRedistributions :: "page \<Rightarrow> Redistribution list" where
  "allRedistributions st =
     (case inProgressResponse st of
        None \<Rightarrow> []
      | Some r \<Rightarrow> ListRedistributionsResponse.items r)"

text \<open>The badges of the "All Redistributions" list, one per row.\<close>

definition status_badges :: "page \<Rightarrow> (string \<times> string) list" where
  "status_badges st =
     map (\<lambda>redist. (Redistribution.status redist,
                      getStatusColor (Redistribution.status redist) @ '' capitalize''))
       (allRedistributions st)"

text \<open>
  The badge of the details dialog: the status of the row chosen with \<^verbatim>\<open>Details\<close> and
  its colour, none while no row is chosen.
\<close>

definition details_badge :: "page \<Rightarrow> (string \<times> string) option" where
  "details_badge st =
     map_option
       (\<lambda>redist. (Redistribution.status redist,
                   getStatusColor (Redistribution.status redist) @ '' mt-1''))
       (selectedForDetails st)"

subsection \<open>Mutations\<close>

text \<open>
  \<^verbatim>\<open>useMutation\<close> of the query library, by its contract. \<^verbatim>\<open>mutate(variables)\<close> runs
  \<^verbatim>\<open>onMutate\<close> first when the options have one (where an optimistic update would write
  the cache), then awaits \<^verbatim>\<open>mutationFn\<close>; \<open>mutate_pending\<close> is the component's state
  during that wait, while \<^verbatim>\<open>isPending\<close> holds. When the promise settles,
  \<^verbatim>\<open>onSuccess\<close> or \<^verbatim>\<open>onError\<close> runs.
\<close>

record ('v, 's) useMutation =
  onMutate :: "('v \<Rightarrow> 's \<Rightarrow> 's) option"
  mutationFn :: "'v \<Rightarrow> 's \<Rightarrow> outcome"
  onSuccess :: "(json \<Rightarrow> 's \<Rightarrow> 's) option"
  onError :: "(exn \<Rightarrow> 's \<Rightarrow> 's) option"

definition mutate_pending :: "('v, 's) useMutation \<Rightarrow> 'v \<Rightarrow> 's \<Rightarrow> 's" where
  "mutate_pending m v st = (case onMutate m of None \<Rightarrow> st | Some f \<Rightarrow> f v st)"

definition mutate_settled :: "('v, 's) useMutation \<Rightarrow> exn + json \<Rightarrow> 's \<Rightarrow> 's" where
  "mutate_settled m res st =
     (case res of
        Inl err \<Rightarrow> (case onError m of None \<Rightarrow> st | Some f \<Rightarrow> f err st)
      | Inr data \<Rightarrow> (case onSuccess m of None \<Rightarrow> st | Some f \<Rightarrow> f data st))"

definition mutate :: "('v, 's) useMutation \<Rightarrow> 'v \<Rightarrow> 's \<Rightarrow> (string \<times> RequestInit) list \<times> 's" where
  "mutate m v st =
     (let st1 = mutate_pending m v st;
          (sent, res) = mutationFn m v st1
      in (sent, mutate_settled m res st1))"

text \<open>
  \<^verbatim>\<open>approveMutation\<close>. \<open>now\<close> is the reading of \<^verbatim>\<open>Date.now()\<close>. The options give
  \<^verbatim>\<open>mutationFn\<close>, \<^verbatim>\<open>onSuccess\<close> and \<^verbatim>\<open>onError\<close>, and nothing else;
  \<^verbatim>\<open>error.message || ...\<close> falls back on an empty message.
\<close>

definition approve_mutationFn :: "env \<Rightarrow> int \<Rightarrow> string \<Rightarrow> page \<Rightarrow> outcome" where
  "approve_mutationFn e now redistributionId st =
     (case adminWallet st of
        None \<Rightarrow> ([], Inl (Error ''Admin wallet not found''))
      | Some w \<Rightarrow>
          if w = [] then ([], Inl (Error ''Admin wallet not found''))
          else approveRedistribution e redistributionId w
                 (Some (''approve-'' @ redistributionId @ ''-'' @ String_of_int now)))"

definition approve_onSuccess :: "json \<Rightarrow> page \<Rightarrow> page" where
  "approve_onSuccess data st =
     st\<lparr>toasts := toasts st @ [toast_success ''Redistribution approved successfully!''],
        invalidated := invalidated st @ [[''admin-redistributions'']],
        approveDialogOpen := False,
        selectedRedist := None\<rparr>"

definition approve_onError :: "exn \<Rightarrow> page \<Rightarrow> page" where
  "approve_onError err st =
     st\<lparr>toasts := toasts st @
          [case err of
             Error msg \<Rightarrow>
               toast_error (if msg = [] then ''Failed to approve redistribution'' else msg)
           | _ \<Rightarrow> toast_error_runtime err]\<rparr>"

definition approveMutation :: "env \<Rightarrow> int \<Rightarrow> (string, page) useMutation" where
  "approveMutation e now =
     \<lparr>onMutate = None,
      mutationFn = approve_mutationFn e now,
      onSuccess = Some approve_onSuccess,
      onError = Some approve_onError\<rparr>"

subsection \<open>Handlers\<close>

text \<open>
  What the user can do on the page: the \<^verbatim>\<open>Approve\<close> button of a pending row
  (\<^verbatim>\<open>handleApprove\<close>), \<^verbatim>\<open>Confirm Approval\<close> (\<^verbatim>\<open>confirmApprove\<close>), the \<^verbatim>\<open>Details\<close>
  button (\<^verbatim>\<open>handleViewDetails\<close>), and opening or closing either dialog
  (\<^verbatim>\<open>setApproveDialogOpen\<close>, \<^verbatim>\<open>setDetailsDialogOpen\<close>). A handler returns the requests
  it sent and the next state.
\<close>

datatype action =
    HandleApprove Redistribution
  | ConfirmApprove
  | HandleViewDetails Redistribution
  | SetApproveDialogOpen bool
  | SetDetailsDialogOpen bool

fun handle :: "env \<Rightarrow> int \<Rightarrow> action \<Rightarrow> page \<Rightarrow> (string \<times> RequestInit) list \<times> page" where
  "handle e now (HandleApprove redist) st =
     ([], st\<lparr>selectedRedist := Some redist, approveDialogOpen := True\<rparr>)"
| "handle e now ConfirmApprove st =
     (case selectedRedist st of
        None \<Rightarrow> ([], st)
      | Some redist \<Rightarrow> mutate (approveMutation e now) (Redistribution.id redist) st)"
| "handle e now (HandleViewDetails redist) st =
     ([], st\<lparr>selectedForDetails := Some redist, detailsDialogOpen := True\<rparr>)"
| "handle e now (SetApproveDialogOpen b) st = ([], st\<lparr>approveDialogOpen := b\<rparr>)"
| "handle e now (SetDetailsDialogOpen b) st = ([], st\<lparr>detailsDialogOpen := b\<rparr>)"

section \<open>The create-redistribution dialog (CreateRedistributionDialog)\<close>

text \<open>
  \<^verbatim>\<open>parseInt(string)\<close> with no radix: leading white space is skipped, then an optional
  sign, then \<^verbatim>\<open>0x\<close> or \<^verbatim>\<open>0X\<close> selects radix 16, and the longest run of digits of the
  radix is read; \<open>None\<close> is \<^verbatim>\<open>NaN\<close>, the result when that run is empty. The white space
  is the ASCII one (an \<^verbatim>\<open>input\<close> of type \<^verbatim>\<open>number\<close> holds none at all), and the
  integer is exact, as a double is below \<open>2 ^ 53\<close>.
\<close>

definition is_space :: "char \<Rightarrow> bool" where
  "is_space c = (c \<in> set [CHR 0x09, CHR 0x0A, CHR 0x0B, CHR 0x0C, CHR 0x0D, CHR '' ''])"

definition digit_val :: "nat \<Rightarrow> char \<Rightarrow> nat option" where
  "digit_val radix c =
     (case map_of (zip ''0123456789abcdef'' [0 ..< 16] @ zip ''ABCDEF'' [10 ..< 16]) c of
        None \<Rightarrow> None
      | Some d \<Rightarrow> if d < radix then Some d else None)"

fun leading_digits :: "nat \<Rightarrow> string \<Rightarrow> nat list" where
  "leading_digits radix [] = []"
| "leading_digits radix (c # cs) =
     (case digit_val radix c of None \<Rightarrow> [] | Some d \<Rightarrow> d # leading_digits radix cs)"

definition parseInt :: "string \<Rightarrow> int option" where
  "parseInt str =
     (let s1 = dropWhile is_space str;
          negative = (take 1 s1 = ''-'');
          s2 = (if take 1 s1 = ''-'' \<or> take 1 s1 = ''+'' then drop 1 s1 else s1);
          hex = (take 2 s2 = ''0x'' \<or> take 2 s2 = ''0X'');
          radix = (if hex then 16 else 10);
          ds = leading_digits radix (if hex then drop 2 s2 else s2);
          n = int (foldl (\<lambda>acc d. acc * radix + d) 0 ds)
      in if ds = [] then None else Some (if negative then - n else n))"

text \<open>
  An entry of the \<^verbatim>\<open>kiosk-products\<close> query and the state the mutation reads: the kiosk
  of the signed-in user, the three form fields, and the products (\<open>None\<close> while the query
  has no data).
\<close>

record product_choice =
  id :: string
  sku :: string
  name :: string
  unit :: string
  available_quantity :: int

record dialog =
  kioskId :: "string option"
  toKioskId :: string
  selectedProduct :: string
  quantity :: string
  products :: "product_choice list option"

text \<open>
  \<^verbatim>\<open>mutationFn\<close> of \<^verbatim>\<open>createMutation\<close>. \<open>now\<close> is the reading of \<^verbatim>\<open>Date.now()\<close> and
  \<open>rnd\<close> the text \<^verbatim>\<open>Math.random().toString(36)\<close>.
\<close>

definition create_mutationFn :: "env \<Rightarrow> int \<Rightarrow> string \<Rightarrow> dialog \<Rightarrow> outcome" where
  "create_mutationFn e now rnd d =
     (if kioskId d = None \<or> kioskId d = Some [] \<or> toKioskId d = []
         \<or> selectedProduct d = [] \<or> dialog.quantity d = []
      then ([], Inl (Error ''Please fill all fields''))
      else
        case find (\<lambda>p. product_choice.id p = selectedProduct d)
               (case dialog.products d of None \<Rightarrow> [] | Some ps \<Rightarrow> ps) of
          None \<Rightarrow> ([], Inl (Error ''Product not found''))
        | Some product \<Rightarrow>
            (case parseInt (dialog.quantity d) of
               None \<Rightarrow> ([], Inl (Error ''Invalid quantity''))
             | Some qty \<Rightarrow>
                 if qty \<le> 0 then ([], Inl (Error ''Invalid quantity''))
                 else if qty > available_quantity product then
                   ([], Inl (Error (''Only '' @ String_of_int (available_quantity product)
                                    @ '' units available'')))
                 else
                   createRedistribution e
                     \<lparr>CreateRedistributionRequest.from_kiosk_id =
                        (case kioskId d of None \<Rightarrow> [] | Some k \<Rightarrow> k),
                      to_kiosk_id = toKioskId d,
                      items = [\<lparr>RedistributionItem.sku = product_choice.sku product,
                                RedistributionItem.quantity = qty\<rparr>],
                      client_req_id =
                        ''req-'' @ String_of_int now @ ''-'' @ take 9 (drop 2 rnd),
                      signature = [],
                      public_key = []\<rparr>))"

section \<open>The Inventory page: aggregation\<close>

text \<open>
  A row of the \<^verbatim>\<open>all-inventory\<close> query (\<^verbatim>\<open>KioskInventory\<close>). The joined product is
  carried along untouched, so its type is a parameter. Quantities are \<^verbatim>\<open>INTEGER\<close>
  columns; their sums are exact in a double below \<open>2 ^ 53\<close>.
\<close>

record kiosk_ref =
  name :: string

record 'p KioskInventory =
  id :: string
  kiosk_id :: string
  product_id :: string
  quantity :: int
  threshold :: "int option"
  products :: 'p
  kiosks :: kiosk_ref

record kiosk_quantity =
  kiosk :: string
  quantity :: int

record 'p aggregated =
  product_id :: string
  product :: 'p
  total_quantity :: int
  kiosks :: "kiosk_quantity list"

text \<open>
  \<^verbatim>\<open>acc.find(...)\<close> returns the first matching object of the accumulator and the branch
  mutates that object where it stands.
\<close>

fun mutate_first :: "('a \<Rightarrow> bool) \<Rightarrow> ('a \<Rightarrow> 'a) \<Rightarrow> 'a list \<Rightarrow> 'a list" where
  "mutate_first P f [] = []"
| "mutate_first P f (x # xs) = (if P x then f x # xs else x # mutate_first P f xs)"

definition aggregate_step :: "'p aggregated list \<Rightarrow> 'p KioskInventory \<Rightarrow> 'p aggregated list" where
  "aggregate_step acc item =
     (case find (\<lambda>p. aggregated.product_id p = KioskInventory.product_id item) acc of
        Some existing \<Rightarrow>
          mutate_first (\<lambda>p. aggregated.product_id p = KioskInventory.product_id item)
            (\<lambda>existing.
               existing\<lparr>total_quantity := total_quantity existing + KioskInventory.quantity item,
                        aggregated.kiosks := aggregated.kiosks existing @
                          [\<lparr>kiosk = kiosk_ref.name (KioskInventory.kiosks item),
                            kiosk_quantity.quantity = KioskInventory.quantity item\<rparr>]\<rparr>)
            acc
      | None \<Rightarrow>
          acc @ [\<lparr>aggregated.product_id = KioskInventory.product_id item,
                  product = products item,
                  total_quantity = KioskInventory.quantity item,
                  aggregated.kiosks =
                    [\<lparr>kiosk = kiosk_ref.name (KioskInventory.kiosks item),
                      kiosk_quantity.quantity = KioskInventory.quantity item\<rparr>]\<rparr>])"

definition aggregate :: "'p KioskInventory list \<Rightarrow> 'p aggregated list" where
  "aggregate inventoryItems = foldl aggregate_step [] inventoryItems"

text \<open>\<^verbatim>\<open>inventoryItems?.reduce(...)\<close>: \<^verbatim>\<open>undefined\<close> while the query has no data.\<close>

definition aggregatedProducts :: "'p KioskInventory list option \<Rightarrow> 'p aggregated list option" where
  "aggregatedProducts inventoryItems = map_option aggregate inventoryItems"

section \<open>The database schema\<close>

subsection \<open>Enums and tables\<close>

text \<open>
  \<^verbatim>\<open>UUID\<close> and \<^verbatim>\<open>TEXT\<close> are strings, \<^verbatim>\<open>TIMESTAMPTZ\<close> an instant counted in
  microseconds, \<^verbatim>\<open>NUMERIC(10, 2)\<close> a number of hundredths. A column without
  \<^verbatim>\<open>NOT NULL\<close> is an \<open>option\<close>, \<open>None\<close> being \<^verbatim>\<open>NULL\<close>.
\<close>

type_synonym uuid = string
type_synonym timestamptz = int
type_synonym numeric = int

datatype app_role = admin | kiosk

datatype redistribution_status =
  requested | approved | submitted | fulfilled | reconciled | failed | timed_out

datatype command_status = pending | processing | submitted | completed | failed

text \<open>
  The tables that carry an \<^verbatim>\<open>updated_at\<close> column and a trigger on it share that column;
  each table adds its own columns.
\<close>

record with_updated_at =
  updated_at :: "timestamptz option"

record kiosks_row = with_updated_at +
  id :: uuid
  name :: string
  location :: string
  kiosk_code :: string
  admin_id :: "uuid option"
  auto_approve :: "bool option"
  inventory :: "json option"
  status :: "string option"
  created_at :: "timestamptz option"

record products_row = with_updated_at +
  id :: uuid
  sku :: string
  name :: string
  unit :: string
  unit_price :: numeric
  acquired_price :: "numeric option"
  suggested_price :: "numeric option"
  quantity :: "int option"
  created_at :: "timestamptz option"

record redistributions_row = with_updated_at +
  id :: uuid
  from_kiosk_id :: uuid
  to_kiosk_id :: uuid
  status :: "redistribution_status option"
  items :: json
  pricing :: "json option"
  blockchain_ref :: "string option"
  txid :: "string option"
  client_req_id :: string
  signature :: "string option"
  public_key :: "string option"
  created_by :: uuid
  created_at :: "timestamptz option"
  completed_at :: "timestamptz option"

record blockchain_commands_row = with_updated_at +
  id :: uuid
  user_id :: uuid
  client_req_id :: string
  command_type :: string
  payload :: json
  status :: "command_status option"
  redistribution_id :: uuid
  error_message :: "string option"
  created_at :: "timestamptz option"
  processed_at :: "timestamptz option"

record profiles_row = with_updated_at +
  id :: uuid
  user_id :: uuid
  full_name :: "string option"
  kiosk_id :: "uuid option"
  created_at :: "timestamptz option"

record user_roles_row =
  id :: uuid
  user_id :: uuid
  role :: app_role
  created_at :: "timestamptz option"

record database =
  user_roles :: "user_roles_row list"
  profiles :: "profiles_row list"
  redistributions :: "redistributions_row list"

subsection \<open>Inserting a redistribution\<close>

text \<open>
  What an \<^verbatim>\<open>INSERT\<close> says of a column: nothing (or \<^verbatim>\<open>DEFAULT\<close>), \<^verbatim>\<open>NULL\<close>, or a
  value. A column left out takes its \<^verbatim>\<open>DEFAULT\<close> expression, \<^verbatim>\<open>NULL\<close> when it declares
  none; \<^verbatim>\<open>NOT NULL\<close> (and \<^verbatim>\<open>PRIMARY KEY\<close>) rejects a \<^verbatim>\<open>NULL\<close>. \<open>fresh\<close> is the value of
  \<^verbatim>\<open>uuid_generate_v4()\<close> and \<open>now\<close> that of \<^verbatim>\<open>NOW()\<close>. Foreign keys and uniqueness are
  not checked here; they reject further inserts and change no stored row.
\<close>

datatype 'a given = DEFAULT | NULL | Value 'a

datatype sql_error = not_null_violation string

record redistributions_values =
  id :: "uuid given"
  from_kiosk_id :: "uuid given"
  to_kiosk_id :: "uuid given"
  status :: "redistribution_status given"
  items :: "json given"
  pricing :: "json given"
  blockchain_ref :: "string given"
  txid :: "string given"
  client_req_id :: "string given"
  signature :: "string given"
  public_key :: "string given"
  created_by :: "uuid given"
  created_at :: "timestamptz given"
  updated_at :: "timestamptz given"
  completed_at :: "timestamptz given"

definition column :: "'a option \<Rightarrow> 'a given \<Rightarrow> 'a option" where
  "column dflt g = (case g of DEFAULT \<Rightarrow> dflt | NULL \<Rightarrow> None | Value v \<Rightarrow> Some v)"

definition not_null :: "string \<Rightarrow> 'a option \<Rightarrow> ('a \<Rightarrow> sql_error + 'b) \<Rightarrow> sql_error + 'b" where
  "not_null col v k = (case v of None \<Rightarrow> Inl (not_null_violation col) | Some x \<Rightarrow> k x)"

definition insert_redistributions ::
    "uuid \<Rightarrow> timestamptz \<Rightarrow> redistributions_values \<Rightarrow> sql_error + redistributions_row" where
  "insert_redistributions fresh now vals =
     not_null ''id'' (column (Some fresh) (redistributions_values.id vals)) (\<lambda>c_id.
     not_null ''from_kiosk_id'' (column None (redistributions_values.from_kiosk_id vals)) (\<lambda>c_from.
     not_null ''to_kiosk_id'' (column None (redistributions_values.to_kiosk_id vals)) (\<lambda>c_to.
     not_null ''items'' (column None (redistributions_values.items vals)) (\<lambda>c_items.
     not_null ''client_req_id'' (column None (redistributions_values.client_req_id vals)) (\<lambda>c_req.
     not_null ''created_by'' (column None (redistributions_values.created_by vals)) (\<lambda>c_by.
       Inr \<lparr>with_updated_at.updated_at =
              column (Some now) (redistributions_values.updated_at vals),
            redistributions_row.id = c_id,
            from_kiosk_id = c_from,
            to_kiosk_id = c_to,
            status = column (Some requested) (redistributions_values.status vals),
            items = c_items,
            pricing = column None (redistributions_values.pricing vals),
            blockchain_ref = column None (redistributions_values.blockchain_ref vals),
            txid = column None (redistributions_values.txid vals),
            client_req_id = c_req,
            signature = column None (redistributions_values.signature vals),
            public_key = column None (redistributions_values.public_key vals),
            created_by = c_by,
            created_at = column (Some now) (redistributions_values.created_at vals),
            completed_at = column None (redistributions_values.completed_at vals)\<rparr>))))))"

subsection \<open>Row-level security on redistributions\<close>

text \<open>
  Conditions are three-valued: a comparison with \<^verbatim>\<open>NULL\<close> is \<^verbatim>\<open>NULL\<close> (\<open>None\<close>), and a
  \<^verbatim>\<open>WHERE\<close> keeps the rows whose condition is true. \<open>uid\<close> is \<^verbatim>\<open>auth.uid()\<close>, \<^verbatim>\<open>NULL\<close>
  for a request without a user.
\<close>

definition sql_eq :: "'a option \<Rightarrow> 'a option \<Rightarrow> bool option" where
  "sql_eq a b = (case a of None \<Rightarrow> None | Some x \<Rightarrow> (case b of None \<Rightarrow> None | Some y \<Rightarrow> Some (x = y)))"

fun sql_and :: "bool option \<Rightarrow> bool option \<Rightarrow> bool option" where
  "sql_and (Some False) b = Some False"
| "sql_and a (Some False) = Some False"
| "sql_and (Some True) (Some True) = Some True"
| "sql_and a b = None"

fun sql_or :: "bool option \<Rightarrow> bool option \<Rightarrow> bool option" where
  "sql_or (Some True) b = Some True"
| "sql_or a (Some True) = Some True"
| "sql_or (Some False) (Some False) = Some False"
| "sql_or a b = None"

definition sql_exists :: "('r \<Rightarrow> bool option) \<Rightarrow> 'r list \<Rightarrow> bool" where
  "sql_exists cond rows = list_ex (\<lambda>r. cond r = Some True) rows"

definition admins_can_view_all_redistributions ::
    "database \<Rightarrow> uuid option \<Rightarrow> redistributions_row \<Rightarrow> bool" where
  "admins_can_view_all_redistributions db uid r =
     sql_exists
       (\<lambda>ur. sql_and (sql_eq (Some (user_roles_row.user_id ur)) uid)
                      (sql_eq (Some (role ur)) (Some admin)))
       (user_roles db)"

definition kiosks_can_view_their_own_redistributions ::
    "database \<Rightarrow> uuid option \<Rightarrow> redistributions_row \<Rightarrow> bool" where
  "kiosks_can_view_their_own_redistributions db uid r =
     sql_exists
       (\<lambda>p. sql_and (sql_eq (Some (profiles_row.user_id p)) uid)
               (sql_or (sql_eq (kiosk_id p) (Some (redistributions_row.from_kiosk_id r)))
                       (sql_eq (kiosk_id p) (Some (redistributions_row.to_kiosk_id r)))))
       (profiles db)"

text \<open>
  Row-level security is enabled on the table and these are its two \<^verbatim>\<open>SELECT\<close>
  policies, both permissive: a query returns the rows that one of them accepts.
\<close>

definition select_redistributions :: "database \<Rightarrow> uuid option \<Rightarrow> redistributions_row list" where
  "select_redistributions db uid =
     filter (\<lambda>r. admins_can_view_all_redistributions db uid r
                  \<or> kiosks_can_view_their_own_redistributions db uid r)
       (database.redistributions db)"

subsection \<open>The \<^verbatim>\<open>updated_at\<close> triggers\<close>

text \<open>
  \<^verbatim>\<open>update_updated_at_column()\<close> assigns \<^verbatim>\<open>NEW.updated_at\<close> and returns \<^verbatim>\<open>NEW\<close>; it
  works on a row of any table with that column. Five triggers run it
  \<^verbatim>\<open>BEFORE UPDATE ... FOR EACH ROW\<close>.
\<close>

definition update_updated_at_column ::
    "timestamptz \<Rightarrow> 'a with_updated_at_scheme \<Rightarrow> 'a with_updated_at_scheme" where
  "update_updated_at_column now NEW = NEW\<lparr>with_updated_at.updated_at := Some now\<rparr>"

definition update_redistributions_updated_at ::
    "timestamptz \<Rightarrow> redistributions_row \<Rightarrow> redistributions_row" where
  "update_redistributions_updated_at = update_updated_at_column"

definition update_kiosks_updated_at :: "timestamptz \<Rightarrow> kiosks_row \<Rightarrow> kiosks_row" where
  "update_kiosks_updated_at = update_updated_at_column"

definition update_products_updated_at :: "timestamptz \<Rightarrow> products_row \<Rightarrow> products_row" where
  "update_products_updated_at = update_updated_at_column"

definition update_profiles_updated_at :: "timestamptz \<Rightarrow> profiles_row \<Rightarrow> profiles_row" where
  "update_profiles_updated_at = update_updated_at_column"

definition update_commands_updated_at ::
    "timestamptz \<Rightarrow> blockchain_commands_row \<Rightarrow> blockchain_commands_row" where
  "update_commands_updated_at = update_updated_at_column"

text \<open>
  \<^verbatim>\<open>UPDATE t SET ... WHERE ...\<close> on a table with a \<^verbatim>\<open>BEFORE UPDATE\<close> row trigger: for
  each row the condition keeps, the \<^verbatim>\<open>SET\<close> list makes \<^verbatim>\<open>NEW\<close> from \<^verbatim>\<open>OLD\<close>, the trigger
  runs on it, and the row it returns is stored.
\<close>

definition sql_update ::
    "(timestamptz \<Rightarrow> 'r \<Rightarrow> 'r) \<Rightarrow> timestamptz \<Rightarrow> ('r \<Rightarrow> bool) \<Rightarrow> ('r \<Rightarrow> 'r) \<Rightarrow> 'r list \<Rightarrow> 'r list" where
  "sql_update before_update now cond set_list rows =
     map (\<lambda>OLD. if cond OLD then before_update now (set_list OLD) else OLD) rows"

definition update_redistributions ::
    "timestamptz \<Rightarrow> (redistributions_row \<Rightarrow> bool) \<Rightarrow> (redistributions_row \<Rightarrow> redistributions_row)
      \<Rightarrow> redistributions_row list \<Rightarrow> redistributions_row list" where
  "update_redistributions = sql_update update_redistributions_updated_at"

definition update_kiosks ::
    "timestamptz \<Rightarrow> (kiosks_row \<Rightarrow> bool) \<Rightarrow> (kiosks_row \<Rightarrow> kiosks_row)
      \<Rightarrow> kiosks_row list \<Rightarrow> kiosks_row list" where
  "update_kiosks = sql_update update_kiosks_updated_at"

definition update_products ::
    "timestamptz \<Rightarrow> (products_row \<Rightarrow> bool) \<Rightarrow> (products_row \<Rightarrow> products_row)
      \<Rightarrow> products_row list \<Rightarrow> products_row list" where
  "update_products = sql_update update_products_updated_at"

definition update_profiles ::
    "timestamptz \<Rightarrow> (profiles_row \<Rightarrow> bool) \<Rightarrow> (profiles_row \<Rightarrow> profiles_row)
      \<Rightarrow> profiles_row list \<Rightarrow> profiles_row list" where
  "update_profiles = sql_update update_profiles_updated_at"

definition update_blockchain_commands ::
    "timestamptz \<Rightarrow> (blockchain_commands_row \<Rightarrow> bool)
      \<Rightarrow> (blockchain_commands_row \<Rightarrow> blockchain_commands_row)
      \<Rightarrow> blockchain_commands_row list \<Rightarrow> blockchain_commands_row list" where
  "update_blockchain_commands = sql_update update_commands_updated_at"

section \<open>Invariant of the aggregation\<close>

text \<open>
  What holds of the accumulator after the reduce has consumed the rows \<open>seen\<close>: one
  entry per product id met, each holding the total and the kiosk list of the rows of
  its product.
\<close>

definition agg_inv :: "'p aggregated list \<Rightarrow> 'p KioskInventory list \<Rightarrow> bool" where
  "agg_inv acc seen \<longleftrightarrow>
     distinct (map aggregated.product_id acc)
     \<and> set (map aggregated.product_id acc) = set (map KioskInventory.product_id seen)
     \<and> (\<forall>e\<in>set acc.
          total_quantity e =
            sum_list (map KioskInventory.quantity
              (filter (\<lambda>i. KioskInventory.product_id i = aggregated.product_id e) seen))
          \<and> aggregated.kiosks e =
            map (\<lambda>i. \<lparr>kiosk_quantity.kiosk = kiosk_ref.name (KioskInventory.kiosks i),
                       kiosk_quantity.quantity = KioskInventory.quantity i\<rparr>)
              (filter (\<lambda>i. KioskInventory.product_id i = aggregated.product_id e) seen))"

section \<open>Example data\<close>

text \<open>
  Networks: one that accepts every request, one that refuses it, one that is down, and
  three whose bodies are \<^verbatim>\<open>null\<close>, not JSON, or an error with an empty message.
\<close>

definition fetch_ok :: "string \<Rightarrow> RequestInit \<Rightarrow> exn + Response" where
  "fetch_ok url init = Inr \<lparr>ok = True, json = Inr (JObj [(''data'', JStr ''done'')])\<rparr>"

definition fetch_refused :: "string \<Rightarrow> RequestInit \<Rightarrow> exn + Response" where
  "fetch_refused url init =
     Inr \<lparr>ok = False,
          json = Inr (JObj [(''error'', JObj [(''message'', JStr ''Not an admin'')])])\<rparr>"

definition fetch_offline :: "string \<Rightarrow> RequestInit \<Rightarrow> exn + Response" where
  "fetch_offline url init = Inl TypeError"

definition fetch_null :: "string \<Rightarrow> RequestInit \<Rightarrow> exn + Response" where
  "fetch_null url init = Inr \<lparr>ok = True, json = Inr JNull\<rparr>"

definition fetch_not_json :: "string \<Rightarrow> RequestInit \<Rightarrow> exn + Response" where
  "fetch_not_json url init = Inr \<lparr>ok = True, json = Inl SyntaxError\<rparr>"

definition fetch_empty_message :: "string \<Rightarrow> RequestInit \<Rightarrow> exn + Response" where
  "fetch_empty_message url init =
     Inr \<lparr>ok = False, json = Inr (JObj [(''error'', JObj [(''message'', JStr [])])])\<rparr>"

definition example_env :: env where
  "example_env =
     \<lparr>VITE_API_URL = None, session = Some \<lparr>access_token = ''jwt''\<rparr>, fetch = fetch_ok\<rparr>"

text \<open>A page that shows one pending request.\<close>

definition example_redistribution :: Redistribution where
  "example_redistribution =
     \<lparr>Redistribution.id = ''r1'', from_kiosk_id = ''k1'', to_kiosk_id = ''k2'',
      status = ''requested'', items = [], pricing = None, blockchain_ref = None,
      txid = None, created_at = ''2025-01-01'', updated_at = ''2025-01-01'',
      completed_at = None\<rparr>"

definition example_page :: page where
  "example_page =
     \<lparr>selectedRedist = Some example_redistribution,
      approveDialogOpen = True,
      detailsDialogOpen = False,
      selectedForDetails = None,
      redistributionsResponse =
        Some \<lparr>ListRedistributionsResponse.items = [example_redistribution],
              total = 1, limit = 50, offset = 0\<rparr>,
      inProgressResponse =
        Some \<lparr>ListRedistributionsResponse.items = [example_redistribution],
              total = 1, limit = 50, offset = 0\<rparr>,
      adminWallet = Some ''WALLET'',
      page.kiosks = None,
      invalidated = [],
      toasts = []\<rparr>"

text \<open>A dialog whose fields are all filled, and one whose product has left the list.\<close>

definition example_dialog :: dialog where
  "example_dialog =
     \<lparr>kioskId = Some ''k1'', toKioskId = ''k2'', selectedProduct = ''p1'',
      dialog.quantity = ''5'',
      dialog.products =
        Some [\<lparr>product_choice.id = ''p1'', sku = ''PROD-001'', name = ''Water Bottle'',
               unit = ''unit'', available_quantity = 7\<rparr>]\<rparr>"

definition stale_dialog :: dialog where
  "stale_dialog =
     \<lparr>kioskId = Some ''k1'', toKioskId = ''k2'', selectedProduct = ''p1'',
      dialog.quantity = ''0'',
      dialog.products =
        Some [\<lparr>product_choice.id = ''p2'', sku = ''PROD-002'', name = ''Snack Bar'',
               unit = ''unit'', available_quantity = 80\<rparr>]\<rparr>"

text \<open>The request the filled dialog makes.\<close>

definition example_request :: CreateRedistributionRequest where
  "example_request =
     \<lparr>CreateRedistributionRequest.from_kiosk_id = ''k1'', to_kiosk_id = ''k2'',
      items = [\<lparr>RedistributionItem.sku = ''PROD-001'', RedistributionItem.quantity = 5\<rparr>],
      client_req_id = ''req-1700-k3j5h7f9d'', signature = [], public_key = []\<rparr>"

text \<open>Three inventory rows over two products.\<close>

definition example_row :: "string \<Rightarrow> string \<Rightarrow> int \<Rightarrow> unit KioskInventory" where
  "example_row k p q =
     \<lparr>KioskInventory.id = k @ p, kiosk_id = k, product_id = p,
      KioskInventory.quantity = q, threshold = Some 20, products = (),
      KioskInventory.kiosks = \<lparr>kiosk_ref.name = k\<rparr>\<rparr>"

definition example_inventory :: "unit KioskInventory list" where
  "example_inventory =
     [example_row ''A'' ''p1'' 3, example_row ''B'' ''p2'' 4, example_row ''C'' ''p1'' 5]"

text \<open>
  A database after the demo script: an administrator without a kiosk, two kiosk users,
  and two redistributions, of which the first involves the kiosk of the first user.
\<close>

definition example_redistributions_row :: "uuid \<Rightarrow> uuid \<Rightarrow> uuid \<Rightarrow> redistributions_row" where
  "example_redistributions_row rid k_from k_to =
     \<lparr>with_updated_at.updated_at = Some 0,
      redistributions_row.id = rid, from_kiosk_id = k_from, to_kiosk_id = k_to,
      status = Some requested, items = JArr [], pricing = None, blockchain_ref = None,
      txid = None, client_req_id = ''req'', signature = None, public_key = None,
      created_by = ''KIOSK2'', created_at = Some 0, completed_at = None\<rparr>"

definition example_db :: database where
  "example_db =
     \<lparr>user_roles =
        [\<lparr>user_roles_row.id = ''ur1'', user_id = ''ADMIN'', role = admin, created_at = None\<rparr>,
         \<lparr>user_roles_row.id = ''ur2'', user_id = ''KIOSK1'', role = app_role.kiosk,
           created_at = None\<rparr>,
         \<lparr>user_roles_row.id = ''ur3'', user_id = ''KIOSK2'', role = app_role.kiosk,
           created_at = None\<rparr>],
      profiles =
        [\<lparr>with_updated_at.updated_at = None, profiles_row.id = ''pr1'', user_id = ''KIOSK1'',
           full_name = Some ''Kiosk Manager 1'', kiosk_id = Some ''k1'', created_at = None\<rparr>,
         \<lparr>with_updated_at.updated_at = None, profiles_row.id = ''pr2'', user_id = ''KIOSK2'',
           full_name = Some ''Kiosk Manager 2'', kiosk_id = Some ''k2'', created_at = None\<rparr>,
         \<lparr>with_updated_at.updated_at = None, profiles_row.id = ''pr3'', user_id = ''ADMIN'',
           full_name = Some ''Admin User'', kiosk_id = None, created_at = None\<rparr>],
      redistributions =
        [example_redistributions_row ''r1'' ''k1'' ''k2'',
         example_redistributions_row ''r2'' ''k2'' ''k3'']\<rparr>"

text \<open>An \<^verbatim>\<open>INSERT\<close> that names the columns without a default and nothing else.\<close>

definition example_values :: redistributions_values where
  "example_values =
     \<lparr>redistributions_values.id = DEFAULT, from_kiosk_id = Value ''k1'',
      to_kiosk_id = Value ''k2'', status = DEFAULT, items = Value (JArr []),
      pricing = DEFAULT, blockchain_ref = DEFAULT, txid = DEFAULT,
      client_req_id = Value ''req'', signature = DEFAULT, public_key = DEFAULT,
      created_by = Value ''KIOSK1'', created_at = DEFAULT, updated_at = DEFAULT,
      completed_at = DEFAULT\<rparr>"

section \<open>Properties\<close>

subsection \<open>Helper facts\<close>

lemma apiRequest_sent:
  "fst (apiRequest e endpoint options) =
     [(API_BASE_URL e @ endpoint, options\<lparr>headers := Some (request_headers e options)\<rparr>)]"
  by (simp add: apiRequest_def Let_def)

lemma request_headers_plain:
  "headers options = None \<Longrightarrow>
     request_headers e options =
       (case getAuthToken e of
          None \<Rightarrow> [(''Content-Type'', ''application/json'')]
        | Some t \<Rightarrow> [(''Content-Type'', ''application/json''),
                     (''Authorization'', ''Bearer '' @ t)])"
  by (auto simp: request_headers_def getAuthToken_def split: option.splits)

lemma map_of_obj_set: "map_of (obj_set k v kvs) k = Some v"
  by (induction kvs) auto

lemma getAuthToken_nonempty: "getAuthToken e = Some t \<Longrightarrow> t \<noteq> []"
  by (auto simp: getAuthToken_def split: option.splits if_splits)

lemma js_get_defined:
  "data \<noteq> JNull \<Longrightarrow> data \<noteq> JUndefined \<Longrightarrow> js_get data k = Inr (js_get_opt data k)"
  by (cases data) (auto split: option.splits)

lemma createRedistribution_sent:
  "fst (createRedistribution e r) =
     [(API_BASE_URL e @ ''/redistributions'',
       \<lparr>method' = Some ''POST'', body = Some (JSON_stringify (request_json r)),
        headers = Some (request_headers e no_options)\<rparr>)]"
  by (simp add: createRedistribution_def apiRequest_sent request_headers_def no_options_def)

lemma approveRedistribution_sent:
  "fst (approveRedistribution e rid w c) =
     [(API_BASE_URL e @ ''/redistributions/'' @ rid @ ''/approve'',
       \<lparr>method' = Some ''POST'',
        body = Some (JSON_stringify
                 (JObj [(''admin_wallet'', JStr w),
                        (''client_req_id'', case c of None \<Rightarrow> JUndefined | Some x \<Rightarrow> JStr x)])),
        headers = Some (request_headers e no_options)\<rparr>)]"
  by (simp add: approveRedistribution_def apiRequest_sent request_headers_def no_options_def)

lemma approve_pending_unchanged: "mutate_pending (approveMutation e now) rid st = st"
  by (simp add: mutate_pending_def approveMutation_def)

lemma approve_settled_cache:
  "redistributionsResponse (mutate_settled (approveMutation e now) res st) = redistributionsResponse st
   \<and> inProgressResponse (mutate_settled (approveMutation e now) res st) = inProgressResponse st"
  by (cases res)
     (simp_all add: mutate_settled_def approveMutation_def approve_onSuccess_def
        approve_onError_def)

lemma approve_settled_invalidated:
  "invalidated (mutate_settled (approveMutation e now) res st) =
     (if isl res then invalidated st else invalidated st @ [[''admin-redistributions'']])"
  by (cases res)
     (simp_all add: mutate_settled_def approveMutation_def approve_onSuccess_def
        approve_onError_def)

lemma approve_mutationFn_sent:
  "fst (approve_mutationFn e now rid st) = [] \<or>
   (\<exists>w c. fst (approve_mutationFn e now rid st) = fst (approveRedistribution e rid w c))"
  by (auto simp: approve_mutationFn_def split: option.splits)

lemma mutate_approve:
  "mutate (approveMutation e now) rid st =
     (fst (approve_mutationFn e now rid st),
      mutate_settled (approveMutation e now) (snd (approve_mutationFn e now rid st)) st)"
  by (simp add: mutate_def Let_def mutate_pending_def approveMutation_def split: prod.splits)

lemma handle_cache:
  "redistributionsResponse (snd (handle e now a st)) = redistributionsResponse st
   \<and> inProgressResponse (snd (handle e now a st)) = inProgressResponse st"
proof (cases a)
  case ConfirmApprove
  show ?thesis
  proof (cases "selectedRedist st")
    case None
    with ConfirmApprove show ?thesis by simp
  next
    case (Some redist)
    with ConfirmApprove show ?thesis
      by (simp add: mutate_approve approve_settled_cache)
  qed
qed simp_all

lemma handle_sent:
  "fst (handle e now a st) = [] \<or>
   (\<exists>rid w c. fst (handle e now a st) = fst (approveRedistribution e rid w c))"
proof (cases a)
  case ConfirmApprove
  show ?thesis
  proof (cases "selectedRedist st")
    case None
    with ConfirmApprove show ?thesis by simp
  next
    case (Some redist)
    with ConfirmApprove show ?thesis
      using approve_mutationFn_sent [of e now "Redistribution.id redist" st]
      by (auto simp: mutate_approve)
  qed
qed simp_all

lemma approve_settled_cells:
  "selectedRedist (mutate_settled (approveMutation e now) res st) \<in> {None, selectedRedist st}
   \<and> selectedForDetails (mutate_settled (approveMutation e now) res st) = selectedForDetails st
   \<and> adminWallet (mutate_settled (approveMutation e now) res st) = adminWallet st
   \<and> page.kiosks (mutate_settled (approveMutation e now) res st) = page.kiosks st"
  by (cases res)
     (simp_all add: mutate_settled_def approveMutation_def approve_onSuccess_def
        approve_onError_def)

lemma handle_cells:
  "selectedRedist (snd (handle e now a st))
     \<in> {None, selectedRedist st} \<union> (case a of HandleApprove x \<Rightarrow> {Some x} | _ \<Rightarrow> {})
   \<and> selectedForDetails (snd (handle e now a st)) =
       (case a of HandleViewDetails x \<Rightarrow> Some x | _ \<Rightarrow> selectedForDetails st)
   \<and> adminWallet (snd (handle e now a st)) = adminWallet st
   \<and> page.kiosks (snd (handle e now a st)) = page.kiosks st"
proof (cases a)
  case ConfirmApprove
  show ?thesis
  proof (cases "selectedRedist st")
    case None
    with ConfirmApprove show ?thesis by simp
  next
    case (Some redist)
    with ConfirmApprove show ?thesis
      using approve_settled_cells
        [of e now "snd (approve_mutationFn e now (Redistribution.id redist) st)" st]
      by (simp add: mutate_approve)
  qed
qed simp_all

lemma handle_requests:
  "fst (handle e now a st) =
     (case a of
        ConfirmApprove \<Rightarrow>
          (case selectedRedist st of
             None \<Rightarrow> []
           | Some x \<Rightarrow>
               (case adminWallet st of
                  None \<Rightarrow> []
                | Some w \<Rightarrow>
                    if w = [] then []
                    else fst (approveRedistribution e (Redistribution.id x) w
                           (Some (''approve-'' @ Redistribution.id x @ ''-''
                                  @ String_of_int now)))))
      | _ \<Rightarrow> [])"
  by (cases a)
     (simp_all add: mutate_approve approve_mutationFn_def split: option.splits)

lemma call_requests:
  "fst (call e c) =
     [(API_BASE_URL e @
         (case c of
            CreateRedistribution x \<Rightarrow> ''/redistributions''
          | ApproveRedistribution x w y \<Rightarrow> ''/redistributions/'' @ x @ ''/approve''
          | GetRedistribution x \<Rightarrow> ''/redistributions/'' @ x
          | ListRedistributions ps \<Rightarrow> query_endpoint ''/redistributions'' ps
          | GetCommand x \<Rightarrow> ''/commands/'' @ x
          | GetTransaction x \<Rightarrow> ''/tx/'' @ x
          | ListTransactions ps \<Rightarrow> query_endpoint ''/transactions'' ps
          | GetHealth \<Rightarrow> ''/health''),
       \<lparr>method' =
          (case c of
             CreateRedistribution x \<Rightarrow> Some ''POST''
           | ApproveRedistribution x w y \<Rightarrow> Some ''POST''
           | _ \<Rightarrow> None),
        body =
          (case c of
             CreateRedistribution x \<Rightarrow> Some (JSON_stringify (request_json x))
           | ApproveRedistribution x w y \<Rightarrow>
               Some (JSON_stringify
                 (JObj [(''admin_wallet'', JStr w),
                        (''client_req_id'',
                           case y of None \<Rightarrow> JUndefined | Some z \<Rightarrow> JStr z)]))
           | _ \<Rightarrow> None),
        headers = Some (request_headers e no_options)\<rparr>)]"
  by (cases c)
     (simp_all add: createRedistribution_sent approveRedistribution_sent apiRequest_sent
        getRedistribution_def listRedistributions_def getCommand_def getTransaction_def
        listTransactions_def getHealth_def no_options_def)

lemma create_mutationFn_requests:
  "fst (create_mutationFn e now rnd d) = [] \<or>
   (\<exists>x. fst (create_mutationFn e now rnd d) = fst (createRedistribution e x))"
  by (auto simp: create_mutationFn_def split: option.splits)

lemma parseInt_examples:
  "parseInt ''5'' = Some 5" "parseInt ''8'' = Some 8" "parseInt ''0'' = Some 0"
  "parseInt ''abc'' = None" "parseInt ''-3'' = Some (- 3)"
  by code_simp+

lemma String_of_int_examples: "String_of_int 1700 = ''1700''" "String_of_int 7 = ''7''"
  by code_simp+

lemma sql_exists_iff: "sql_exists cond rows \<longleftrightarrow> (\<exists>r\<in>set rows. cond r = Some True)"
  by (simp add: sql_exists_def list_ex_iff)

lemma sql_and_True: "sql_and a b = Some True \<longleftrightarrow> a = Some True \<and> b = Some True"
  by (cases "(a, b)" rule: sql_and.cases) auto

lemma sql_or_True: "sql_or a b = Some True \<longleftrightarrow> a = Some True \<or> b = Some True"
  by (cases "(a, b)" rule: sql_or.cases) auto

lemma sql_eq_True: "sql_eq a b = Some True \<longleftrightarrow> (\<exists>x. a = Some x \<and> b = Some x)"
  by (auto simp: sql_eq_def split: option.splits)

lemma admin_policy_iff:
  "admins_can_view_all_redistributions db uid r \<longleftrightarrow>
     (\<exists>ur\<in>set (user_roles db). uid = Some (user_roles_row.user_id ur) \<and> role ur = admin)"
  by (auto simp: admins_can_view_all_redistributions_def sql_exists_iff sql_and_True sql_eq_True)

lemma kiosk_policy_iff:
  "kiosks_can_view_their_own_redistributions db uid r \<longleftrightarrow>
     (\<exists>p\<in>set (profiles db). uid = Some (profiles_row.user_id p)
        \<and> (kiosk_id p = Some (redistributions_row.from_kiosk_id r)
           \<or> kiosk_id p = Some (redistributions_row.to_kiosk_id r)))"
  by (auto simp: kiosks_can_view_their_own_redistributions_def sql_exists_iff sql_and_True
        sql_or_True sql_eq_True)

lemma trigger_sets_updated_at:
  "with_updated_at.updated_at (update_updated_at_column now NEW) = Some now
   \<and> with_updated_at.more (update_updated_at_column now NEW) = with_updated_at.more NEW"
  by (simp add: update_updated_at_column_def)

lemma map_mutate_first:
  "(\<And>x. g (f x) = g x) \<Longrightarrow> map g (mutate_first P f xs) = map g xs"
  by (induction xs) auto

lemma set_mutate_first:
  "distinct (map g xs) \<Longrightarrow>
     set (mutate_first (\<lambda>x. g x = k) f xs) =
       {x \<in> set xs. g x \<noteq> k} \<union> f ` {x \<in> set xs. g x = k}"
proof (induction xs)
  case Nil
  then show ?case by simp
next
  case (Cons x xs)
  show ?case
  proof (cases "g x = k")
    case True
    with Cons.prems have "\<forall>y\<in>set xs. g y \<noteq> k"
      by (auto simp: image_iff)
    with True show ?thesis by auto
  next
    case False
    with Cons show ?thesis by auto
  qed
qed

lemma agg_inv_step:
  assumes "agg_inv acc seen"
  shows "agg_inv (aggregate_step acc x) (seen @ [x])"
proof (cases "find (\<lambda>p. aggregated.product_id p = KioskInventory.product_id x) acc")
  case None
  let ?new = "\<lparr>aggregated.product_id = KioskInventory.product_id x, product = products x,
      total_quantity = KioskInventory.quantity x,
      aggregated.kiosks = [\<lparr>kiosk_quantity.kiosk = kiosk_ref.name (KioskInventory.kiosks x),
                             kiosk_quantity.quantity = KioskInventory.quantity x\<rparr>]\<rparr>"
  from None have fresh: "KioskInventory.product_id x \<notin> set (map aggregated.product_id acc)"
    by (auto simp: find_None_iff)
  with assms have "KioskInventory.product_id x \<notin> set (map KioskInventory.product_id seen)"
    by (simp add: agg_inv_def)
  then have unseen: "filter (\<lambda>i. KioskInventory.product_id i = KioskInventory.product_id x) seen = []"
    unfolding filter_empty_conv by (auto simp: image_iff)
  have step: "aggregate_step acc x = acc @ [?new]"
    using None by (simp add: aggregate_step_def)
  show ?thesis
    unfolding step agg_inv_def
  proof (intro conjI ballI)
    show "distinct (map aggregated.product_id (acc @ [?new]))"
      using assms fresh by (simp add: agg_inv_def)
    show "set (map aggregated.product_id (acc @ [?new]))
        = set (map KioskInventory.product_id (seen @ [x]))"
      using assms by (simp add: agg_inv_def)
  next
    fix e
    assume e: "e \<in> set (acc @ [?new])"
    show "total_quantity e =
        sum_list (map KioskInventory.quantity
          (filter (\<lambda>i. KioskInventory.product_id i = aggregated.product_id e) (seen @ [x])))"
      using e assms fresh unseen by (auto simp: agg_inv_def)
    show "aggregated.kiosks e =
        map (\<lambda>i. \<lparr>kiosk_quantity.kiosk = kiosk_ref.name (KioskInventory.kiosks i),
                   kiosk_quantity.quantity = KioskInventory.quantity i\<rparr>)
          (filter (\<lambda>i. KioskInventory.product_id i = aggregated.product_id e) (seen @ [x]))"
      using e assms fresh unseen by (auto simp: agg_inv_def)
  qed
next
  case (Some existing)
  let ?f = "\<lambda>existing::'a aggregated.
      existing\<lparr>total_quantity := total_quantity existing + KioskInventory.quantity x,
               aggregated.kiosks := aggregated.kiosks existing @
                 [\<lparr>kiosk_quantity.kiosk = kiosk_ref.name (KioskInventory.kiosks x),
                   kiosk_quantity.quantity = KioskInventory.quantity x\<rparr>]\<rparr>"
  have step: "aggregate_step acc x =
      mutate_first (\<lambda>p. aggregated.product_id p = KioskInventory.product_id x) ?f acc"
    using Some by (simp add: aggregate_step_def)
  have pids: "map aggregated.product_id (aggregate_step acc x) = map aggregated.product_id acc"
    unfolding step by (rule map_mutate_first) simp
  from Some have "existing \<in> set acc"
    and "aggregated.product_id existing = KioskInventory.product_id x"
    by (auto simp: find_Some_iff)
  then have known: "KioskInventory.product_id x \<in> set (map aggregated.product_id acc)"
    by force
  from assms have dist: "distinct (map aggregated.product_id acc)"
    by (simp add: agg_inv_def)
  have elems: "set (aggregate_step acc x) =
      {p \<in> set acc. aggregated.product_id p \<noteq> KioskInventory.product_id x}
      \<union> ?f ` {p \<in> set acc. aggregated.product_id p = KioskInventory.product_id x}"
    unfolding step by (rule set_mutate_first [OF dist])
  show ?thesis
    unfolding agg_inv_def
  proof (intro conjI ballI)
    show "distinct (map aggregated.product_id (aggregate_step acc x))"
      using dist by (simp add: pids)
    show "set (map aggregated.product_id (aggregate_step acc x))
        = set (map KioskInventory.product_id (seen @ [x]))"
      using assms known by (auto simp: pids agg_inv_def)
  next
    fix e
    assume "e \<in> set (aggregate_step acc x)"
    then consider
        (other) "e \<in> set acc" "aggregated.product_id e \<noteq> KioskInventory.product_id x"
      | (same) p where "p \<in> set acc"
          "aggregated.product_id p = KioskInventory.product_id x" "e = ?f p"
      unfolding elems by blast
    then have both: "total_quantity e =
        sum_list (map KioskInventory.quantity
          (filter (\<lambda>i. KioskInventory.product_id i = aggregated.product_id e) (seen @ [x])))
      \<and> aggregated.kiosks e =
        map (\<lambda>i. \<lparr>kiosk_quantity.kiosk = kiosk_ref.name (KioskInventory.kiosks i),
                   kiosk_quantity.quantity = KioskInventory.quantity i\<rparr>)
          (filter (\<lambda>i. KioskInventory.product_id i = aggregated.product_id e) (seen @ [x]))"
    proof cases
      case other
      with assms show ?thesis by (auto simp: agg_inv_def)
    next
      case same
      with assms show ?thesis by (auto simp: agg_inv_def)
    qed
    from both show "total_quantity e =
        sum_list (map KioskInventory.quantity
          (filter (\<lambda>i. KioskInventory.product_id i = aggregated.product_id e) (seen @ [x])))"
      by simp
    from both show "aggregated.kiosks e =
        map (\<lambda>i. \<lparr>kiosk_quantity.kiosk = kiosk_ref.name (KioskInventory.kiosks i),
                   kiosk_quantity.quantity = KioskInventory.quantity i\<rparr>)
          (filter (\<lambda>i. KioskInventory.product_id i = aggregated.product_id e) (seen @ [x]))"
      by simp
  qed
qed

lemma agg_inv_aggregate: "agg_inv (aggregate xs) xs"
proof (induction xs rule: rev_induct)
  case Nil
  show ?case by (simp add: aggregate_def agg_inv_def)
next
  case (snoc x xs)
  then show ?case
    using agg_inv_step [of "aggregate xs" xs x] by (simp add: aggregate_def)
qed

subsection \<open>Claims\<close>

text \<open>
  C1. The lifecycle is a column of the enum type \<^verbatim>\<open>redistribution_status\<close>, which has
  exactly the seven values \<^verbatim>\<open>requested\<close>, \<^verbatim>\<open>approved\<close>, \<^verbatim>\<open>submitted\<close>, \<^verbatim>\<open>fulfilled\<close>,
  \<^verbatim>\<open>reconciled\<close>, \<^verbatim>\<open>failed\<close> and \<^verbatim>\<open>timed_out\<close>, all different; and a row inserted
  into \<^verbatim>\<open>redistributions\<close> without a status is stored with status \<^verbatim>\<open>requested\<close>, the
  default of the column.
\<close>

theorem status_enum_and_default:
  "(UNIV :: redistribution_status set) =
     {requested, approved, redistribution_status.submitted, fulfilled, reconciled,
      redistribution_status.failed, timed_out}
   \<and> distinct [requested, approved, redistribution_status.submitted, fulfilled, reconciled,
        redistribution_status.failed, timed_out]
   \<and> (insert_redistributions fresh now vals = Inr row
        \<and> redistributions_values.status vals = DEFAULT
        \<longrightarrow> redistributions_row.status row = Some requested)"
proof -
  have "x \<in> {requested, approved, redistribution_status.submitted, fulfilled, reconciled,
      redistribution_status.failed, timed_out}" for x :: redistribution_status
    by (cases x) simp_all
  then have univ: "(UNIV :: redistribution_status set) =
     {requested, approved, redistribution_status.submitted, fulfilled, reconciled,
      redistribution_status.failed, timed_out}"
    by blast
  have dflt: "redistributions_row.status row = Some requested"
    if "insert_redistributions fresh now vals = Inr row"
      and "redistributions_values.status vals = DEFAULT"
    using that
    by (auto simp: insert_redistributions_def not_null_def column_def split: option.splits)
  from univ dflt show ?thesis by simp
qed

theorem status_enum_and_default_witness:
  "insert_redistributions ''r9'' 42 example_values =
     Inr ((example_redistributions_row ''r9'' ''k1'' ''k2'')
            \<lparr>with_updated_at.updated_at := Some 42, redistributions_row.created_at := Some 42,
             redistributions_row.created_by := ''KIOSK1''\<rparr>)
   \<and> redistributions_values.status example_values = DEFAULT
   \<and> redistributions_row.status ((example_redistributions_row ''r9'' ''k1'' ''k2'')
            \<lparr>with_updated_at.updated_at := Some 42, redistributions_row.created_at := Some 42,
             redistributions_row.created_by := ''KIOSK1''\<rparr>) = Some requested"
  using status_enum_and_default [of "''r9''" 42 example_values
      "(example_redistributions_row ''r9'' ''k1'' ''k2'')
            \<lparr>with_updated_at.updated_at := Some 42, redistributions_row.created_at := Some 42,
             redistributions_row.created_by := ''KIOSK1''\<rparr>"]
  by (simp add: insert_redistributions_def not_null_def column_def example_values_def
        example_redistributions_row_def)

text \<open>
  C2. No operation of the repository assigns the status of a redistribution; the code
  only reads it.
  \<^item> Each of the eight exported functions of the client sends one request: a \<^verbatim>\<open>POST\<close>
    for \<^verbatim>\<open>createRedistribution\<close> and \<^verbatim>\<open>approveRedistribution\<close>, whose bodies are the
    request object and \<^verbatim>\<open>{admin_wallet, client_req_id}\<close>, neither with a \<^verbatim>\<open>status\<close>; for
    the six others a request without method and body, a \<^verbatim>\<open>GET\<close>.
  \<^item> The pending list is read with a \<^verbatim>\<open>GET\<close> of \<^verbatim>\<open>/redistributions?status=requested\<close>,
    the list of all redistributions with a \<^verbatim>\<open>GET\<close> of \<^verbatim>\<open>/redistributions\<close>.
  \<^item> Every handler of the page leaves both fetched lists and the badges of their rows
    as they were; the row it keeps for the approval dialog is the one it held, none, or
    the row the user clicked, and the row of the details dialog is the one it held or
    the row the user clicked, each as it was given, so the badge of the details dialog
    shows the status that row came with. The only request a handler sends is the
    approval of the selected row with the wallet of the administrator.
  \<^item> The create mutation sends nothing or one create request.
  \<^item> The schema stores the status a statement writes: an \<^verbatim>\<open>INSERT\<close> stores the status
    it states, the initial \<^verbatim>\<open>requested\<close> of the column default when it states none; an
    \<^verbatim>\<open>UPDATE\<close> stores the status of its \<^verbatim>\<open>SET\<close> list in the rows it updates and keeps
    the others; and the one function of the schema that rewrites a redistributions row,
    the \<^verbatim>\<open>updated_at\<close> trigger, keeps the status it is given.
\<close>

theorem status_only_read:
  "fst (call e c) =
     [(API_BASE_URL e @
         (case c of
            CreateRedistribution x \<Rightarrow> ''/redistributions''
          | ApproveRedistribution x v y \<Rightarrow> ''/redistributions/'' @ x @ ''/approve''
          | GetRedistribution x \<Rightarrow> ''/redistributions/'' @ x
          | ListRedistributions ps \<Rightarrow> query_endpoint ''/redistributions'' ps
          | GetCommand x \<Rightarrow> ''/commands/'' @ x
          | GetTransaction x \<Rightarrow> ''/tx/'' @ x
          | ListTransactions ps \<Rightarrow> query_endpoint ''/transactions'' ps
          | GetHealth \<Rightarrow> ''/health''),
       \<lparr>method' =
          (case c of
             CreateRedistribution x \<Rightarrow> Some ''POST''
           | ApproveRedistribution x v y \<Rightarrow> Some ''POST''
           | _ \<Rightarrow> None),
        body =
          (case c of
             CreateRedistribution x \<Rightarrow> Some (JSON_stringify (request_json x))
           | ApproveRedistribution x v y \<Rightarrow>
               Some (JSON_stringify
                 (JObj [(''admin_wallet'', JStr v),
                        (''client_req_id'',
                           case y of None \<Rightarrow> JUndefined | Some z \<Rightarrow> JStr z)]))
           | _ \<Rightarrow> None),
        headers = Some (request_headers e no_options)\<rparr>)]
   \<and> js_get_opt (request_json r) ''status'' = JUndefined
   \<and> fst (admin_redistributions_queryFn e) =
     [(API_BASE_URL e @ ''/redistributions?status=requested'',
       \<lparr>method' = None, body = None, headers = Some (request_headers e no_options)\<rparr>)]
   \<and> fst (admin_redistributions_progress_queryFn e) =
     [(API_BASE_URL e @ ''/redistributions'',
       \<lparr>method' = None, body = None, headers = Some (request_headers e no_options)\<rparr>)]
   \<and> fst (approveRedistribution e rid w cr) =
     [(API_BASE_URL e @ ''/redistributions/'' @ rid @ ''/approve'',
       \<lparr>method' = Some ''POST'',
        body = Some (JSON_stringify
                 (JObj [(''admin_wallet'', JStr w),
                        (''client_req_id'', case cr of None \<Rightarrow> JUndefined | Some x \<Rightarrow> JStr x)])),
        headers = Some (request_headers e no_options)\<rparr>)]
   \<and> redistributionsResponse (snd (handle e now a st)) = redistributionsResponse st
   \<and> inProgressResponse (snd (handle e now a st)) = inProgressResponse st
   \<and> status_badges (snd (handle e now a st)) = status_badges st
   \<and> selectedRedist (snd (handle e now a st))
       \<in> {None, selectedRedist st} \<union> (case a of HandleApprove x \<Rightarrow> {Some x} | _ \<Rightarrow> {})
   \<and> selectedForDetails (snd (handle e now a st)) =
       (case a of HandleViewDetails x \<Rightarrow> Some x | _ \<Rightarrow> selectedForDetails st)
   \<and> details_badge (snd (handle e now a st)) =
       (case a of
          HandleViewDetails x \<Rightarrow>
            Some (Redistribution.status x, getStatusColor (Redistribution.status x) @ '' mt-1'')
        | _ \<Rightarrow> details_badge st)
   \<and> fst (handle e now a st) =
       (case a of
          ConfirmApprove \<Rightarrow>
            (case selectedRedist st of
               None \<Rightarrow> []
             | Some x \<Rightarrow>
                 (case adminWallet st of
                    None \<Rightarrow> []
                  | Some v \<Rightarrow>
                      if v = [] then []
                      else fst (approveRedistribution e (Redistribution.id x) v
                             (Some (''approve-'' @ Redistribution.id x @ ''-''
                                    @ String_of_int now)))))
        | _ \<Rightarrow> [])
   \<and> (fst (handle e now a st) = [] \<or>
       (\<exists>rid' w' c'. fst (handle e now a st) = fst (approveRedistribution e rid' w' c')))
   \<and> (fst (create_mutationFn e now rnd d) = [] \<or>
       (\<exists>x. fst (create_mutationFn e now rnd d) = fst (createRedistribution e x)))
   \<and> redistributions_row.status (update_redistributions_updated_at t NEW)
       = redistributions_row.status NEW
   \<and> map redistributions_row.status (update_redistributions t cond set_list rows) =
       map (\<lambda>OLD. redistributions_row.status (if cond OLD then set_list OLD else OLD)) rows
   \<and> (insert_redistributions fresh t vals = Inr row \<longrightarrow>
         redistributions_row.status row =
           (case redistributions_values.status vals of
              DEFAULT \<Rightarrow> Some requested
            | NULL \<Rightarrow> None
            | Value given_status \<Rightarrow> Some given_status))"
proof -
  have stored: "map redistributions_row.status (update_redistributions t cond set_list rows) =
       map (\<lambda>OLD. redistributions_row.status (if cond OLD then set_list OLD else OLD)) rows"
    by (simp add: update_redistributions_def sql_update_def
          update_redistributions_updated_at_def update_updated_at_column_def)
  have inserted: "insert_redistributions fresh t vals = Inr row \<longrightarrow>
         redistributions_row.status row =
           (case redistributions_values.status vals of
              DEFAULT \<Rightarrow> Some requested
            | NULL \<Rightarrow> None
            | Value given_status \<Rightarrow> Some given_status)"
    by (cases "redistributions_values.status vals")
       (auto simp: insert_redistributions_def not_null_def column_def split: option.splits)
  have q: "query_endpoint ''/redistributions'' (Some [(''status'', JStr ''requested'')])
      = ''/redistributions?status=requested''"
    by (simp add: query_endpoint_def URLSearchParams_toString_def urlencode_def
          urlencode_byte_def)
  have q': "query_endpoint ''/redistributions'' (Some []) = ''/redistributions''"
    by (simp add: query_endpoint_def URLSearchParams_toString_def)
  have pending: "fst (admin_redistributions_queryFn e) =
     [(API_BASE_URL e @ ''/redistributions?status=requested'',
       \<lparr>method' = None, body = None, headers = Some (request_headers e no_options)\<rparr>)]"
    by (simp add: admin_redistributions_queryFn_def listRedistributions_def apiRequest_sent q
          no_options_def)
  have progress: "fst (admin_redistributions_progress_queryFn e) =
     [(API_BASE_URL e @ ''/redistributions'',
       \<lparr>method' = None, body = None, headers = Some (request_headers e no_options)\<rparr>)]"
    by (simp add: admin_redistributions_progress_queryFn_def listRedistributions_def
          apiRequest_sent q' no_options_def)
  have badges: "status_badges (snd (handle e now a st)) = status_badges st"
    by (simp add: status_badges_def allRedistributions_def handle_cache)
  have details: "details_badge (snd (handle e now a st)) =
       (case a of
          HandleViewDetails x \<Rightarrow>
            Some (Redistribution.status x, getStatusColor (Redistribution.status x) @ '' mt-1'')
        | _ \<Rightarrow> details_badge st)"
    using handle_cells [of e now a st] by (cases a) (simp_all add: details_badge_def)
  have no_status: "js_get_opt (request_json r) ''status'' = JUndefined"
    by (simp add: request_json_def)
  have trigger: "redistributions_row.status (update_redistributions_updated_at t NEW)
      = redistributions_row.status NEW"
    by (simp add: update_redistributions_updated_at_def update_updated_at_column_def)
  note cache = handle_cache [of e now a st]
  note cells = handle_cells [of e now a st]
  have lists: "redistributionsResponse (snd (handle e now a st)) = redistributionsResponse st"
    "inProgressResponse (snd (handle e now a st)) = inProgressResponse st"
    using cache by simp_all
  have kept: "selectedRedist (snd (handle e now a st))
       \<in> {None, selectedRedist st} \<union> (case a of HandleApprove x \<Rightarrow> {Some x} | _ \<Rightarrow> {})"
    using cells by (rule conjunct1)
  have chosen: "selectedForDetails (snd (handle e now a st)) =
       (case a of HandleViewDetails x \<Rightarrow> Some x | _ \<Rightarrow> selectedForDetails st)"
    using cells by (elim conjE)
  show ?thesis
    by (intro conjI)
       (fact call_requests no_status pending progress approveRedistribution_sent lists badges
          kept chosen details handle_requests handle_sent create_mutationFn_requests trigger
          stored inserted)+
qed

theorem status_only_read_witness:
  "insert_redistributions ''r9'' 42 (example_values\<lparr>redistributions_values.status := Value approved\<rparr>)
     = Inr ((example_redistributions_row ''r9'' ''k1'' ''k2'')
            \<lparr>with_updated_at.updated_at := Some 42, redistributions_row.created_at := Some 42,
             redistributions_row.created_by := ''KIOSK1'',
             redistributions_row.status := Some approved\<rparr>)
   \<and> redistributions_row.status
        ((example_redistributions_row ''r9'' ''k1'' ''k2'')
            \<lparr>with_updated_at.updated_at := Some 42, redistributions_row.created_at := Some 42,
             redistributions_row.created_by := ''KIOSK1'',
             redistributions_row.status := Some approved\<rparr>) = Some approved
   \<and> details_badge
        (snd (handle example_env 1700 (HandleViewDetails example_redistribution) example_page))
       = Some (''requested'', ''bg-warning/30 text-warning mt-1'')
   \<and> fst (handle example_env 1700 ConfirmApprove example_page) =
       [(''http://localhost:8001/api/redistributions/r1/approve'',
         \<lparr>method' = Some ''POST'',
          body = Some (JSON_stringify
                   (JObj [(''admin_wallet'', JStr ''WALLET''),
                          (''client_req_id'', JStr ''approve-r1-1700'')])),
          headers = Some [(''Content-Type'', ''application/json''),
                          (''Authorization'', ''Bearer jwt'')]\<rparr>)]"
proof -
  let ?vals = "example_values\<lparr>redistributions_values.status := Value approved\<rparr>"
  let ?row = "(example_redistributions_row ''r9'' ''k1'' ''k2'')
            \<lparr>with_updated_at.updated_at := Some 42, redistributions_row.created_at := Some 42,
             redistributions_row.created_by := ''KIOSK1'',
             redistributions_row.status := Some approved\<rparr>"
  have inserted: "insert_redistributions ''r9'' 42 ?vals = Inr ?row"
    by (simp add: insert_redistributions_def not_null_def column_def example_values_def
          example_redistributions_row_def)
  from status_only_read [of example_env GetHealth example_request "''r1''" "''WALLET''" None
      1700 "HandleViewDetails example_redistribution" example_page "''0.k3j5h7f9d1b''"
      example_dialog 42 ?row "\<lambda>OLD. True" "\<lambda>OLD. OLD" "[]" "''r9''" ?vals ?row]
  have shown: "details_badge
        (snd (handle example_env 1700 (HandleViewDetails example_redistribution) example_page))
       = (case HandleViewDetails example_redistribution of
            HandleViewDetails x \<Rightarrow>
              Some (Redistribution.status x, getStatusColor (Redistribution.status x) @ '' mt-1'')
          | _ \<Rightarrow> details_badge example_page)"
    and stored: "insert_redistributions ''r9'' 42 ?vals = Inr ?row \<longrightarrow>
         redistributions_row.status ?row =
           (case redistributions_values.status ?vals of
              DEFAULT \<Rightarrow> Some requested
            | NULL \<Rightarrow> None
            | Value given_status \<Rightarrow> Some given_status)"
    by blast+
  from status_only_read [of example_env GetHealth example_request "''r1''" "''WALLET''" None
      1700 ConfirmApprove example_page "''0.k3j5h7f9d1b''"
      example_dialog 42 ?row "\<lambda>OLD. True" "\<lambda>OLD. OLD" "[]" "''r9''" ?vals ?row]
  have confirmed: "fst (handle example_env 1700 ConfirmApprove example_page) =
       (case ConfirmApprove of
          ConfirmApprove \<Rightarrow>
            (case selectedRedist example_page of
               None \<Rightarrow> []
             | Some x \<Rightarrow>
                 (case adminWallet example_page of
                    None \<Rightarrow> []
                  | Some v \<Rightarrow>
                      if v = [] then []
                      else fst (approveRedistribution example_env (Redistribution.id x) v
                             (Some (''approve-'' @ Redistribution.id x @ ''-''
                                    @ String_of_int 1700)))))
        | _ \<Rightarrow> [])"
    by blast
  have details: "details_badge
        (snd (handle example_env 1700 (HandleViewDetails example_redistribution) example_page))
       = Some (''requested'', ''bg-warning/30 text-warning mt-1'')"
    unfolding shown by (simp add: example_redistribution_def getStatusColor_def)
  have sent: "fst (handle example_env 1700 ConfirmApprove example_page) =
       [(''http://localhost:8001/api/redistributions/r1/approve'',
         \<lparr>method' = Some ''POST'',
          body = Some (JSON_stringify
                   (JObj [(''admin_wallet'', JStr ''WALLET''),
                          (''client_req_id'', JStr ''approve-r1-1700'')])),
          headers = Some [(''Content-Type'', ''application/json''),
                          (''Authorization'', ''Bearer jwt'')]\<rparr>)]"
    unfolding confirmed
    by (simp add: example_page_def example_redistribution_def example_env_def
          String_of_int_examples approveRedistribution_sent request_headers_def
          getAuthToken_def API_BASE_URL_def no_options_def)
  from stored inserted have "redistributions_row.status ?row = Some approved"
    by (simp add: example_values_def)
  with inserted details sent show ?thesis by simp
qed

text \<open>
  C3, as the code has it. Where \<^verbatim>\<open>fetch\<close> resolves and the body parses to a JSON value
  other than \<^verbatim>\<open>null\<close>: \<^verbatim>\<open>apiRequest\<close> throws exactly when \<^verbatim>\<open>response.ok\<close> is false; the
  message of the \<^verbatim>\<open>Error\<close> is \<^verbatim>\<open>error.message\<close> of the body, as a string, when that is
  truthy (present and not empty), and \<^verbatim>\<open>API request failed\<close> otherwise; and when
  \<^verbatim>\<open>response.ok\<close> is true the result is the \<^verbatim>\<open>data\<close> field of the body (\<^verbatim>\<open>undefined\<close> when
  the body has none). Where \<^verbatim>\<open>fetch\<close> rejects, or \<^verbatim>\<open>response.json()\<close> rejects, or the body
  is \<^verbatim>\<open>null\<close>, \<^verbatim>\<open>apiRequest\<close> throws whatever \<^verbatim>\<open>response.ok\<close> is.
\<close>

theorem apiRequest_settles:
  "(fetch e (API_BASE_URL e @ endpoint)
       (options\<lparr>headers := Some (request_headers e options)\<rparr>) = Inl rejected
     \<longrightarrow> snd (apiRequest e endpoint options) = Inl rejected)
   \<and> (fetch e (API_BASE_URL e @ endpoint)
         (options\<lparr>headers := Some (request_headers e options)\<rparr>) = Inr response
       \<and> json response = Inl rejected
     \<longrightarrow> snd (apiRequest e endpoint options) = Inl rejected)
   \<and> (fetch e (API_BASE_URL e @ endpoint)
         (options\<lparr>headers := Some (request_headers e options)\<rparr>) = Inr response
       \<and> json response = Inr JNull
     \<longrightarrow> snd (apiRequest e endpoint options) = Inl TypeError)
   \<and> (fetch e (API_BASE_URL e @ endpoint)
         (options\<lparr>headers := Some (request_headers e options)\<rparr>) = Inr response
       \<and> json response = Inr data \<and> data \<noteq> JNull \<and> data \<noteq> JUndefined
     \<longrightarrow>
       (isl (snd (apiRequest e endpoint options)) \<longleftrightarrow> \<not> ok response)
     \<and> (\<not> ok response \<longrightarrow>
          snd (apiRequest e endpoint options) =
            Inl (Error (if truthy (js_get_opt (js_get_opt data ''error'') ''message'')
                        then ToString (js_get_opt (js_get_opt data ''error'') ''message'')
                        else ''API request failed'')))
     \<and> (ok response \<longrightarrow>
          snd (apiRequest e endpoint options) = Inr (js_get_opt data ''data'')))"
proof -
  let ?sent = "fetch e (API_BASE_URL e @ endpoint)
      (options\<lparr>headers := Some (request_headers e options)\<rparr>)"
  have 1: "snd (apiRequest e endpoint options) = Inl rejected" if "?sent = Inl rejected"
    using that by (simp add: apiRequest_def Let_def)
  have 2: "snd (apiRequest e endpoint options) = Inl rejected"
    if "?sent = Inr response" and "json response = Inl rejected"
    using that by (simp add: apiRequest_def Let_def)
  have 3: "snd (apiRequest e endpoint options) = Inl TypeError"
    if "?sent = Inr response" and "json response = Inr JNull"
    using that by (simp add: apiRequest_def Let_def)
  have 4: "(isl (snd (apiRequest e endpoint options)) \<longleftrightarrow> \<not> ok response)
     \<and> (\<not> ok response \<longrightarrow>
          snd (apiRequest e endpoint options) =
            Inl (Error (if truthy (js_get_opt (js_get_opt data ''error'') ''message'')
                        then ToString (js_get_opt (js_get_opt data ''error'') ''message'')
                        else ''API request failed'')))
     \<and> (ok response \<longrightarrow>
          snd (apiRequest e endpoint options) = Inr (js_get_opt data ''data''))"
    if "?sent = Inr response" and "json response = Inr data"
      and "data \<noteq> JNull" and "data \<noteq> JUndefined"
    using that by (simp add: apiRequest_def Let_def js_get_defined)
  from 1 2 3 4 show ?thesis by blast
qed

theorem apiRequest_settles_witness:
  "snd (apiRequest (example_env\<lparr>fetch := fetch_refused\<rparr>) ''/health'' no_options)
       = Inl (Error ''Not an admin'')
   \<and> snd (apiRequest example_env ''/health'' no_options) = Inr (JStr ''done'')
   \<and> snd (apiRequest (example_env\<lparr>fetch := fetch_offline\<rparr>) ''/health'' no_options)
       = Inl TypeError
   \<and> snd (apiRequest (example_env\<lparr>fetch := fetch_not_json\<rparr>) ''/health'' no_options)
       = Inl SyntaxError
   \<and> snd (apiRequest (example_env\<lparr>fetch := fetch_null\<rparr>) ''/health'' no_options)
       = Inl TypeError"
proof -
  have refused: "snd (apiRequest (example_env\<lparr>fetch := fetch_refused\<rparr>) ''/health'' no_options)
       = Inl (Error ''Not an admin'')"
    using apiRequest_settles [of "example_env\<lparr>fetch := fetch_refused\<rparr>" "''/health''"
      no_options SyntaxError
      "\<lparr>ok = False, json = Inr (JObj [(''error'', JObj [(''message'', JStr ''Not an admin'')])])\<rparr>"
      "JObj [(''error'', JObj [(''message'', JStr ''Not an admin'')])]"]
    by (simp add: example_env_def fetch_refused_def)
  have accepted: "snd (apiRequest example_env ''/health'' no_options) = Inr (JStr ''done'')"
    using apiRequest_settles [of example_env "''/health''" no_options SyntaxError
      "\<lparr>ok = True, json = Inr (JObj [(''data'', JStr ''done'')])\<rparr>"
      "JObj [(''data'', JStr ''done'')]"]
    by (simp add: example_env_def fetch_ok_def)
  have offline: "snd (apiRequest (example_env\<lparr>fetch := fetch_offline\<rparr>) ''/health'' no_options)
       = Inl TypeError"
    using apiRequest_settles [of "example_env\<lparr>fetch := fetch_offline\<rparr>" "''/health''"
      no_options TypeError]
    by (simp add: example_env_def fetch_offline_def)
  have not_json: "snd (apiRequest (example_env\<lparr>fetch := fetch_not_json\<rparr>) ''/health'' no_options)
       = Inl SyntaxError"
    using apiRequest_settles [of "example_env\<lparr>fetch := fetch_not_json\<rparr>" "''/health''"
      no_options SyntaxError "\<lparr>ok = True, json = Inl SyntaxError\<rparr>"]
    by (simp add: example_env_def fetch_not_json_def)
  have null: "snd (apiRequest (example_env\<lparr>fetch := fetch_null\<rparr>) ''/health'' no_options)
       = Inl TypeError"
    using apiRequest_settles [of "example_env\<lparr>fetch := fetch_null\<rparr>" "''/health''"
      no_options SyntaxError "\<lparr>ok = True, json = Inr JNull\<rparr>"]
    by (simp add: example_env_def fetch_null_def)
  from refused accepted offline not_json null show ?thesis by simp
qed

text \<open>
  C3 as stated fails twice. A response with \<^verbatim>\<open>ok\<close> true whose body is not JSON makes
  \<^verbatim>\<open>apiRequest\<close> throw, the \<^verbatim>\<open>SyntaxError\<close> of \<^verbatim>\<open>response.json()\<close>. And a failed response
  whose body has the field \<^verbatim>\<open>error.message\<close>, the empty string, gives the message
  \<^verbatim>\<open>API request failed\<close> and not that field.
\<close>

theorem apiRequest_counterexample:
  "snd (apiRequest \<lparr>VITE_API_URL = None, session = None, fetch = fetch_not_json\<rparr>
          ''/health'' no_options) = Inl SyntaxError
   \<and> fetch_not_json ''http://localhost:8001/api/health''
        (no_options\<lparr>headers := Some [(''Content-Type'', ''application/json'')]\<rparr>)
       = Inr \<lparr>ok = True, json = Inl SyntaxError\<rparr>
   \<and> snd (apiRequest \<lparr>VITE_API_URL = None, session = None, fetch = fetch_empty_message\<rparr>
          ''/health'' no_options) = Inl (Error ''API request failed'')
   \<and> fetch_empty_message ''http://localhost:8001/api/health''
        (no_options\<lparr>headers := Some [(''Content-Type'', ''application/json'')]\<rparr>)
       = Inr \<lparr>ok = False, json = Inr (JObj [(''error'', JObj [(''message'', JStr [])])])\<rparr>"
  by (simp add: apiRequest_def Let_def fetch_not_json_def fetch_empty_message_def)


text \<open>
  C4. Every request of the client is authenticated when a session exists. Whatever
  exported function is called, one request is sent, and its headers are
  \<^verbatim>\<open>Content-Type: application/json\<close> followed by \<^verbatim>\<open>Authorization: Bearer <token>\<close>
  when \<^verbatim>\<open>getAuthToken\<close> returns a token, and \<^verbatim>\<open>Content-Type\<close> alone when it returns
  \<^verbatim>\<open>null\<close>. The same holds of \<^verbatim>\<open>apiRequest\<close> at every endpoint when the options bring no
  headers, as in each of its calls; and with any options a token ends up in
  \<^verbatim>\<open>Authorization\<close>.
\<close>

theorem client_requests_authenticated:
  "(\<exists>url init. fst (call e c) = [(url, init)] \<and>
       headers init = Some
         (case getAuthToken e of
            None \<Rightarrow> [(''Content-Type'', ''application/json'')]
          | Some t \<Rightarrow> [(''Content-Type'', ''application/json''),
                       (''Authorization'', ''Bearer '' @ t)]))
   \<and> (headers options = None \<longrightarrow>
         fst (apiRequest e endpoint options) =
           [(API_BASE_URL e @ endpoint,
             options\<lparr>headers := Some
               (case getAuthToken e of
                  None \<Rightarrow> [(''Content-Type'', ''application/json'')]
                | Some t \<Rightarrow> [(''Content-Type'', ''application/json''),
                             (''Authorization'', ''Bearer '' @ t)])\<rparr>)])
   \<and> (getAuthToken e = Some token \<longrightarrow>
         map_of (request_headers e options) ''Authorization'' = Some (''Bearer '' @ token))"
proof -
  have 1: "\<exists>url init. fst (call e c) = [(url, init)] \<and>
       headers init = Some
         (case getAuthToken e of
            None \<Rightarrow> [(''Content-Type'', ''application/json'')]
          | Some t \<Rightarrow> [(''Content-Type'', ''application/json''),
                       (''Authorization'', ''Bearer '' @ t)])"
    by (cases c)
       (simp_all add: apiRequest_sent request_headers_plain createRedistribution_def
          approveRedistribution_def getRedistribution_def listRedistributions_def
          getCommand_def getTransaction_def listTransactions_def getHealth_def no_options_def)
  have 2: "fst (apiRequest e endpoint options) =
           [(API_BASE_URL e @ endpoint,
             options\<lparr>headers := Some
               (case getAuthToken e of
                  None \<Rightarrow> [(''Content-Type'', ''application/json'')]
                | Some t \<Rightarrow> [(''Content-Type'', ''application/json''),
                             (''Authorization'', ''Bearer '' @ t)])\<rparr>)]"
    if "headers options = None"
    using that by (simp add: apiRequest_sent request_headers_plain)
  have 3: "map_of (request_headers e options) ''Authorization'' = Some (''Bearer '' @ token)"
    if "getAuthToken e = Some token"
    using that getAuthToken_nonempty [OF that]
    by (simp add: request_headers_def Let_def map_of_obj_set)
  from 1 2 3 show ?thesis by blast
qed

theorem client_requests_authenticated_witness:
  "headers no_options = None
   \<and> getAuthToken example_env = Some ''jwt''
   \<and> fst (apiRequest example_env ''/health'' no_options) =
        [(''http://localhost:8001/api/health'',
          \<lparr>method' = None, body = None,
           headers = Some [(''Content-Type'', ''application/json''),
                           (''Authorization'', ''Bearer jwt'')]\<rparr>)]
   \<and> map_of (request_headers example_env no_options) ''Authorization'' = Some ''Bearer jwt''
   \<and> getAuthToken (example_env\<lparr>session := None\<rparr>) = None
   \<and> fst (apiRequest (example_env\<lparr>session := None\<rparr>) ''/health'' no_options) =
        [(''http://localhost:8001/api/health'',
          \<lparr>method' = None, body = None,
           headers = Some [(''Content-Type'', ''application/json'')]\<rparr>)]"
proof -
  have signed_in: "fst (apiRequest example_env ''/health'' no_options) =
        [(''http://localhost:8001/api/health'',
          \<lparr>method' = None, body = None,
           headers = Some [(''Content-Type'', ''application/json''),
                           (''Authorization'', ''Bearer jwt'')]\<rparr>)]
      \<and> map_of (request_headers example_env no_options) ''Authorization'' = Some ''Bearer jwt''"
    using client_requests_authenticated
      [of example_env GetHealth no_options "''/health''" "''jwt''"]
    by (simp add: example_env_def no_options_def getAuthToken_def API_BASE_URL_def)
  have signed_out: "fst (apiRequest (example_env\<lparr>session := None\<rparr>) ''/health'' no_options) =
        [(''http://localhost:8001/api/health'',
          \<lparr>method' = None, body = None,
           headers = Some [(''Content-Type'', ''application/json'')]\<rparr>)]"
    using client_requests_authenticated
      [of "example_env\<lparr>session := None\<rparr>" GetHealth no_options "''/health''" "''jwt''"]
    by (simp add: example_env_def no_options_def getAuthToken_def API_BASE_URL_def)
  from signed_in signed_out show ?thesis
    by (simp add: example_env_def no_options_def getAuthToken_def)
qed

text \<open>
  C5. Under the two \<^verbatim>\<open>SELECT\<close> policies of \<^verbatim>\<open>redistributions\<close>, a user with an
  \<^verbatim>\<open>admin\<close> entry in \<^verbatim>\<open>user_roles\<close> reads every row; a user without one reads the rows
  for which a profile of that user has the row's \<^verbatim>\<open>from_kiosk_id\<close> or \<^verbatim>\<open>to_kiosk_id\<close> as
  its \<^verbatim>\<open>kiosk_id\<close>, and no others; and a row that is read is accepted by one of the two.
\<close>

theorem redistributions_select_policies:
  "((\<exists>ur\<in>set (user_roles db). user_roles_row.user_id ur = u \<and> role ur = admin)
      \<longrightarrow> select_redistributions db (Some u) = database.redistributions db)
   \<and> (\<not> (\<exists>ur\<in>set (user_roles db). user_roles_row.user_id ur = u \<and> role ur = admin)
      \<longrightarrow> select_redistributions db (Some u) =
            filter (\<lambda>r. \<exists>p\<in>set (profiles db). profiles_row.user_id p = u
                      \<and> (kiosk_id p = Some (redistributions_row.from_kiosk_id r)
                         \<or> kiosk_id p = Some (redistributions_row.to_kiosk_id r)))
              (database.redistributions db))
   \<and> (r \<in> set (select_redistributions db (Some u))
      \<longrightarrow> (\<exists>ur\<in>set (user_roles db). user_roles_row.user_id ur = u \<and> role ur = admin)
          \<or> (\<exists>p\<in>set (profiles db). profiles_row.user_id p = u
                \<and> (kiosk_id p = Some (redistributions_row.from_kiosk_id r)
                   \<or> kiosk_id p = Some (redistributions_row.to_kiosk_id r))))"
proof -
  have adm: "admins_can_view_all_redistributions db (Some u) r' \<longleftrightarrow>
      (\<exists>ur\<in>set (user_roles db). user_roles_row.user_id ur = u \<and> role ur = admin)" for r'
    by (auto simp: admin_policy_iff)
  have kio: "kiosks_can_view_their_own_redistributions db (Some u) r' \<longleftrightarrow>
      (\<exists>p\<in>set (profiles db). profiles_row.user_id p = u
          \<and> (kiosk_id p = Some (redistributions_row.from_kiosk_id r')
             \<or> kiosk_id p = Some (redistributions_row.to_kiosk_id r')))" for r'
    by (auto simp: kiosk_policy_iff)
  have sel: "select_redistributions db (Some u) =
      filter (\<lambda>r'. (\<exists>ur\<in>set (user_roles db). user_roles_row.user_id ur = u \<and> role ur = admin)
                \<or> (\<exists>p\<in>set (profiles db). profiles_row.user_id p = u
                      \<and> (kiosk_id p = Some (redistributions_row.from_kiosk_id r')
                         \<or> kiosk_id p = Some (redistributions_row.to_kiosk_id r'))))
        (database.redistributions db)"
    by (simp add: select_redistributions_def adm kio)
  have c1: "select_redistributions db (Some u) = database.redistributions db"
    if "\<exists>ur\<in>set (user_roles db). user_roles_row.user_id ur = u \<and> role ur = admin"
    using that by (simp add: sel)
  have c2: "select_redistributions db (Some u) =
      filter (\<lambda>r. \<exists>p\<in>set (profiles db). profiles_row.user_id p = u
                      \<and> (kiosk_id p = Some (redistributions_row.from_kiosk_id r)
                         \<or> kiosk_id p = Some (redistributions_row.to_kiosk_id r)))
        (database.redistributions db)"
    if "\<not> (\<exists>ur\<in>set (user_roles db). user_roles_row.user_id ur = u \<and> role ur = admin)"
    unfolding sel using that by (intro filter_cong) blast+
  have c3: "(\<exists>ur\<in>set (user_roles db). user_roles_row.user_id ur = u \<and> role ur = admin)
          \<or> (\<exists>p\<in>set (profiles db). profiles_row.user_id p = u
                \<and> (kiosk_id p = Some (redistributions_row.from_kiosk_id r)
                   \<or> kiosk_id p = Some (redistributions_row.to_kiosk_id r)))"
    if "r \<in> set (select_redistributions db (Some u))"
    using that unfolding sel by simp
  from c1 c2 c3 show ?thesis by blast
qed

theorem redistributions_select_policies_witness:
  "\<not> (\<exists>ur\<in>set (user_roles example_db). user_roles_row.user_id ur = ''KIOSK1'' \<and> role ur = admin)
   \<and> select_redistributions example_db (Some ''KIOSK1'')
       = [example_redistributions_row ''r1'' ''k1'' ''k2'']
   \<and> (\<exists>p\<in>set (profiles example_db). profiles_row.user_id p = ''KIOSK1''
         \<and> (kiosk_id p = Some ''k1'' \<or> kiosk_id p = Some ''k2''))
   \<and> (\<exists>ur\<in>set (user_roles example_db). user_roles_row.user_id ur = ''ADMIN'' \<and> role ur = admin)
   \<and> select_redistributions example_db (Some ''ADMIN'')
       = [example_redistributions_row ''r1'' ''k1'' ''k2'',
          example_redistributions_row ''r2'' ''k2'' ''k3'']"
proof -
  have kiosk_user: "select_redistributions example_db (Some ''KIOSK1'')
       = [example_redistributions_row ''r1'' ''k1'' ''k2'']"
    using redistributions_select_policies
      [of example_db "''KIOSK1''" "example_redistributions_row ''r1'' ''k1'' ''k2''"]
    by (simp add: example_db_def example_redistributions_row_def)
  have admin_user: "select_redistributions example_db (Some ''ADMIN'')
       = [example_redistributions_row ''r1'' ''k1'' ''k2'',
          example_redistributions_row ''r2'' ''k2'' ''k3'']"
    using redistributions_select_policies
      [of example_db "''ADMIN''" "example_redistributions_row ''r2'' ''k2'' ''k3''"]
    by (simp add: example_db_def)
  from kiosk_user admin_user show ?thesis
    by (simp add: example_db_def)
qed

text \<open>
  C6, as the code has it. In every state of the form the mutation throws and sends no
  request when the quantity parses to \<^verbatim>\<open>NaN\<close> or to a value \<open>\<le> 0\<close>, or exceeds the
  \<^verbatim>\<open>available_quantity\<close> of the selected product. The error is \<^verbatim>\<open>Invalid quantity\<close>,
  respectively \<^verbatim>\<open>Only N units available\<close>, when the checks before it pass: every
  field is filled and the selected product is in the loaded list; it is
  \<^verbatim>\<open>Please fill all fields\<close> when a field is empty and \<^verbatim>\<open>Product not found\<close> when the
  fields are filled and the product is not in the list. When all checks pass,
  one request is sent, a \<^verbatim>\<open>POST\<close> of \<^verbatim>\<open>/redistributions\<close> whose \<^verbatim>\<open>items\<close> is the single
  entry of the product's \<^verbatim>\<open>sku\<close> and the parsed quantity.
\<close>

theorem create_mutation_validates:
  "((parseInt (dialog.quantity d) = None
      \<or> (\<exists>m. parseInt (dialog.quantity d) = Some m \<and> m \<le> 0)
      \<or> (\<exists>m qs q. parseInt (dialog.quantity d) = Some m \<and> dialog.products d = Some qs
            \<and> find (\<lambda>x. product_choice.id x = selectedProduct d) qs = Some q
            \<and> available_quantity q < m))
     \<longrightarrow> fst (create_mutationFn e now rnd d) = []
         \<and> isl (snd (create_mutationFn e now rnd d)))
   \<and> (kioskId d = Some k \<and> k \<noteq> [] \<and> toKioskId d \<noteq> [] \<and> selectedProduct d \<noteq> []
        \<and> dialog.quantity d \<noteq> [] \<and> dialog.products d = Some ps
        \<and> find (\<lambda>x. product_choice.id x = selectedProduct d) ps = Some p
     \<longrightarrow>
       (parseInt (dialog.quantity d) = None \<longrightarrow>
          create_mutationFn e now rnd d = ([], Inl (Error ''Invalid quantity'')))
     \<and> (parseInt (dialog.quantity d) = Some n \<and> n \<le> 0 \<longrightarrow>
          create_mutationFn e now rnd d = ([], Inl (Error ''Invalid quantity'')))
     \<and> (parseInt (dialog.quantity d) = Some n \<and> 0 < n \<and> available_quantity p < n \<longrightarrow>
          create_mutationFn e now rnd d =
            ([], Inl (Error (''Only '' @ String_of_int (available_quantity p)
                             @ '' units available''))))
     \<and> (parseInt (dialog.quantity d) = Some n \<and> 0 < n \<and> n \<le> available_quantity p \<longrightarrow>
          fst (create_mutationFn e now rnd d) =
            [(API_BASE_URL e @ ''/redistributions'',
              \<lparr>method' = Some ''POST'',
               body = Some (JSON_stringify
                 (JObj [(''from_kiosk_id'', JStr k),
                        (''to_kiosk_id'', JStr (toKioskId d)),
                        (''items'', JArr [JObj [(''sku'', JStr (product_choice.sku p)),
                                                (''quantity'', JNum n)]]),
                        (''client_req_id'',
                           JStr (''req-'' @ String_of_int now @ ''-'' @ take 9 (drop 2 rnd))),
                        (''signature'', JStr []),
                        (''public_key'', JStr [])])),
               headers = Some (request_headers e no_options)\<rparr>)]))
   \<and> (kioskId d = None \<or> kioskId d = Some [] \<or> toKioskId d = []
        \<or> selectedProduct d = [] \<or> dialog.quantity d = []
     \<longrightarrow> create_mutationFn e now rnd d = ([], Inl (Error ''Please fill all fields'')))
   \<and> (kioskId d = Some k \<and> k \<noteq> [] \<and> toKioskId d \<noteq> [] \<and> selectedProduct d \<noteq> []
        \<and> dialog.quantity d \<noteq> []
        \<and> (dialog.products d = None
           \<or> (\<exists>qs. dialog.products d = Some qs
                \<and> find (\<lambda>x. product_choice.id x = selectedProduct d) qs = None))
     \<longrightarrow> create_mutationFn e now rnd d = ([], Inl (Error ''Product not found'')))"
proof -
  have unfilled: "create_mutationFn e now rnd d = ([], Inl (Error ''Please fill all fields''))"
    if "kioskId d = None \<or> kioskId d = Some [] \<or> toKioskId d = []
        \<or> selectedProduct d = [] \<or> dialog.quantity d = []"
    using that by (auto simp: create_mutationFn_def)
  have missing: "create_mutationFn e now rnd d = ([], Inl (Error ''Product not found''))"
    if "kioskId d = Some k" and "k \<noteq> []" and "toKioskId d \<noteq> []"
      and "selectedProduct d \<noteq> []" and "dialog.quantity d \<noteq> []"
      and "dialog.products d = None
           \<or> (\<exists>qs. dialog.products d = Some qs
                \<and> find (\<lambda>x. product_choice.id x = selectedProduct d) qs = None)"
    using that by (auto simp: create_mutationFn_def)
  have rejected: "fst (create_mutationFn e now rnd d) = []
      \<and> isl (snd (create_mutationFn e now rnd d))"
    if "parseInt (dialog.quantity d) = None
      \<or> (\<exists>m. parseInt (dialog.quantity d) = Some m \<and> m \<le> 0)
      \<or> (\<exists>m qs q. parseInt (dialog.quantity d) = Some m \<and> dialog.products d = Some qs
            \<and> find (\<lambda>x. product_choice.id x = selectedProduct d) qs = Some q
            \<and> available_quantity q < m)"
    using that by (auto simp: create_mutationFn_def split: option.splits)
  have checked:
    "(parseInt (dialog.quantity d) = None \<longrightarrow>
          create_mutationFn e now rnd d = ([], Inl (Error ''Invalid quantity'')))
     \<and> (parseInt (dialog.quantity d) = Some n \<and> n \<le> 0 \<longrightarrow>
          create_mutationFn e now rnd d = ([], Inl (Error ''Invalid quantity'')))
     \<and> (parseInt (dialog.quantity d) = Some n \<and> 0 < n \<and> available_quantity p < n \<longrightarrow>
          create_mutationFn e now rnd d =
            ([], Inl (Error (''Only '' @ String_of_int (available_quantity p)
                             @ '' units available''))))
     \<and> (parseInt (dialog.quantity d) = Some n \<and> 0 < n \<and> n \<le> available_quantity p \<longrightarrow>
          fst (create_mutationFn e now rnd d) =
            [(API_BASE_URL e @ ''/redistributions'',
              \<lparr>method' = Some ''POST'',
               body = Some (JSON_stringify
                 (JObj [(''from_kiosk_id'', JStr k),
                        (''to_kiosk_id'', JStr (toKioskId d)),
                        (''items'', JArr [JObj [(''sku'', JStr (product_choice.sku p)),
                                                (''quantity'', JNum n)]]),
                        (''client_req_id'',
                           JStr (''req-'' @ String_of_int now @ ''-'' @ take 9 (drop 2 rnd))),
                        (''signature'', JStr []),
                        (''public_key'', JStr [])])),
               headers = Some (request_headers e no_options)\<rparr>)])"
    if "kioskId d = Some k" and "k \<noteq> []" and "toKioskId d \<noteq> []"
      and "selectedProduct d \<noteq> []" and "dialog.quantity d \<noteq> []"
      and "dialog.products d = Some ps"
      and "find (\<lambda>x. product_choice.id x = selectedProduct d) ps = Some p"
    using that
    by (simp add: create_mutationFn_def createRedistribution_sent request_json_def
          item_json_def)
  from rejected checked unfilled missing show ?thesis by blast
qed

theorem create_mutation_validates_witness:
  "fst (create_mutationFn example_env 1700 ''0.k3j5h7f9d1b'' example_dialog) =
        [(''http://localhost:8001/api/redistributions'',
          \<lparr>method' = Some ''POST'',
           body = Some (JSON_stringify
             (JObj [(''from_kiosk_id'', JStr ''k1''),
                    (''to_kiosk_id'', JStr ''k2''),
                    (''items'', JArr [JObj [(''sku'', JStr ''PROD-001''), (''quantity'', JNum 5)]]),
                    (''client_req_id'', JStr ''req-1700-k3j5h7f9d''),
                    (''signature'', JStr []),
                    (''public_key'', JStr [])])),
           headers = Some [(''Content-Type'', ''application/json''),
                           (''Authorization'', ''Bearer jwt'')]\<rparr>)]
   \<and> create_mutationFn example_env 1700 ''0.k3j5h7f9d1b''
         (example_dialog\<lparr>dialog.quantity := ''8''\<rparr>)
       = ([], Inl (Error ''Only 7 units available''))
   \<and> create_mutationFn example_env 1700 ''0.k3j5h7f9d1b''
         (example_dialog\<lparr>dialog.quantity := ''abc''\<rparr>)
       = ([], Inl (Error ''Invalid quantity''))
   \<and> create_mutationFn example_env 1700 ''0.k3j5h7f9d1b''
         (example_dialog\<lparr>dialog.quantity := ''-3''\<rparr>)
       = ([], Inl (Error ''Invalid quantity''))
   \<and> create_mutationFn example_env 1700 ''0.k3j5h7f9d1b''
         (example_dialog\<lparr>toKioskId := []\<rparr>)
       = ([], Inl (Error ''Please fill all fields''))
   \<and> create_mutationFn example_env 1700 ''0.k3j5h7f9d1b'' stale_dialog
       = ([], Inl (Error ''Product not found''))"
proof -
  let ?water = "\<lparr>product_choice.id = ''p1'', sku = ''PROD-001'', name = ''Water Bottle'',
      unit = ''unit'', available_quantity = 7\<rparr>"
  have sent: "fst (create_mutationFn example_env 1700 ''0.k3j5h7f9d1b'' example_dialog) =
        [(''http://localhost:8001/api/redistributions'',
          \<lparr>method' = Some ''POST'',
           body = Some (JSON_stringify
             (JObj [(''from_kiosk_id'', JStr ''k1''),
                    (''to_kiosk_id'', JStr ''k2''),
                    (''items'', JArr [JObj [(''sku'', JStr ''PROD-001''), (''quantity'', JNum 5)]]),
                    (''client_req_id'', JStr ''req-1700-k3j5h7f9d''),
                    (''signature'', JStr []),
                    (''public_key'', JStr [])])),
           headers = Some [(''Content-Type'', ''application/json''),
                           (''Authorization'', ''Bearer jwt'')]\<rparr>)]"
    using create_mutation_validates [of example_dialog example_env 1700 "''0.k3j5h7f9d1b''"
        "''k1''" "[?water]" ?water 5]
    by (simp add: example_dialog_def example_env_def parseInt_examples String_of_int_examples
          API_BASE_URL_def request_headers_def getAuthToken_def no_options_def)
  have too_many: "create_mutationFn example_env 1700 ''0.k3j5h7f9d1b''
         (example_dialog\<lparr>dialog.quantity := ''8''\<rparr>)
       = ([], Inl (Error ''Only 7 units available''))"
    using create_mutation_validates [of "example_dialog\<lparr>dialog.quantity := ''8''\<rparr>"
        example_env 1700 "''0.k3j5h7f9d1b''" "''k1''" "[?water]" ?water 8]
    by (simp add: example_dialog_def parseInt_examples String_of_int_examples)
  have not_a_number: "create_mutationFn example_env 1700 ''0.k3j5h7f9d1b''
         (example_dialog\<lparr>dialog.quantity := ''abc''\<rparr>)
       = ([], Inl (Error ''Invalid quantity''))"
    using create_mutation_validates [of "example_dialog\<lparr>dialog.quantity := ''abc''\<rparr>"
        example_env 1700 "''0.k3j5h7f9d1b''" "''k1''" "[?water]" ?water 0]
    by (simp add: example_dialog_def parseInt_examples)
  have negative: "create_mutationFn example_env 1700 ''0.k3j5h7f9d1b''
         (example_dialog\<lparr>dialog.quantity := ''-3''\<rparr>)
       = ([], Inl (Error ''Invalid quantity''))"
    using create_mutation_validates [of "example_dialog\<lparr>dialog.quantity := ''-3''\<rparr>"
        example_env 1700 "''0.k3j5h7f9d1b''" "''k1''" "[?water]" ?water "- 3"]
    by (simp add: example_dialog_def parseInt_examples)
  have unfilled: "create_mutationFn example_env 1700 ''0.k3j5h7f9d1b''
         (example_dialog\<lparr>toKioskId := []\<rparr>)
       = ([], Inl (Error ''Please fill all fields''))"
    using create_mutation_validates [of "example_dialog\<lparr>toKioskId := []\<rparr>"
        example_env 1700 "''0.k3j5h7f9d1b''" "''k1''" "[?water]" ?water 5]
    by (simp add: example_dialog_def)
  have missing: "create_mutationFn example_env 1700 ''0.k3j5h7f9d1b'' stale_dialog
       = ([], Inl (Error ''Product not found''))"
    using create_mutation_validates [of stale_dialog example_env 1700 "''0.k3j5h7f9d1b''"
        "''k1''" "[?water]" ?water 0]
    by (simp add: stale_dialog_def)
  from sent too_many not_a_number negative unfilled missing show ?thesis by simp
qed

text \<open>
  C6 as stated fails where an earlier check fires first: with a selected product that
  is no longer in the loaded list and the quantity \<^verbatim>\<open>0\<close>, which parses to a value
  \<open>\<le> 0\<close>, the error is \<^verbatim>\<open>Product not found\<close> and not \<^verbatim>\<open>Invalid quantity\<close>.
\<close>

theorem create_mutation_counterexample:
  "parseInt (dialog.quantity stale_dialog) = Some 0
   \<and> create_mutationFn example_env 1700 ''0.k3j5h7f9d1b'' stale_dialog
       = ([], Inl (Error ''Product not found''))"
  by (simp add: stale_dialog_def create_mutationFn_def parseInt_examples)

text \<open>
  C7, as the code has it. The page makes no optimistic update. The options of
  \<^verbatim>\<open>approveMutation\<close> have no \<^verbatim>\<open>onMutate\<close>: while the request is pending the state of the
  page is what it was, and when it settles the fetched lists are still untouched; a
  success invalidates the query \<^verbatim>\<open>admin-redistributions\<close>, so that the list is fetched
  again, and a failure invalidates nothing.
\<close>

theorem approve_not_optimistic:
  "onMutate (approveMutation e now) = None
   \<and> mutate_pending (approveMutation e now) rid st = st
   \<and> redistributionsResponse (mutate_settled (approveMutation e now) res st)
       = redistributionsResponse st
   \<and> inProgressResponse (mutate_settled (approveMutation e now) res st)
       = inProgressResponse st
   \<and> invalidated (mutate_settled (approveMutation e now) res st) =
       (if isl res then invalidated st else invalidated st @ [[''admin-redistributions'']])"
  using approve_pending_unchanged [of e now rid st] approve_settled_cache [of e now res st]
    approve_settled_invalidated [of e now res st]
  by (simp add: approveMutation_def)

text \<open>
  C7 as stated fails: on the page that shows one pending request, triggering the
  approval leaves the fetched list as it was, its one row still \<^verbatim>\<open>requested\<close>, while
  the answer of the server is awaited.
\<close>

theorem approve_optimistic_counterexample:
  "redistributionsResponse (mutate_pending (approveMutation example_env 1700) ''r1'' example_page)
     = redistributionsResponse example_page
   \<and> inProgressResponse (mutate_pending (approveMutation example_env 1700) ''r1'' example_page)
     = inProgressResponse example_page
   \<and> status_badges (mutate_pending (approveMutation example_env 1700) ''r1'' example_page)
     = [(''requested'', ''bg-warning/30 text-warning capitalize'')]"
  by (simp add: mutate_pending_def approveMutation_def status_badges_def allRedistributions_def
        example_page_def example_redistribution_def getStatusColor_def)


text \<open>
  C8. On each of \<^verbatim>\<open>redistributions\<close>, \<^verbatim>\<open>kiosks\<close>, \<^verbatim>\<open>products\<close>, \<^verbatim>\<open>profiles\<close> and
  \<^verbatim>\<open>blockchain_commands\<close>, the \<^verbatim>\<open>BEFORE UPDATE\<close> trigger sets \<^verbatim>\<open>updated_at\<close> of the row
  to the current time and returns every other column (\<open>with_updated_at.more\<close>, the
  columns the table adds to \<^verbatim>\<open>updated_at\<close>) as the statement wrote it; and an
  \<^verbatim>\<open>UPDATE\<close> of the table stores, for each row it updates, what the trigger returns.
\<close>

theorem updated_at_triggers:
  "with_updated_at.updated_at (update_redistributions_updated_at now NEW_r) = Some now
   \<and> with_updated_at.more (update_redistributions_updated_at now NEW_r) = with_updated_at.more NEW_r
   \<and> update_redistributions now cond_r set_r rows_r =
       map (\<lambda>OLD. if cond_r OLD then update_redistributions_updated_at now (set_r OLD) else OLD) rows_r
   \<and> with_updated_at.updated_at (update_kiosks_updated_at now NEW_k) = Some now
   \<and> with_updated_at.more (update_kiosks_updated_at now NEW_k) = with_updated_at.more NEW_k
   \<and> update_kiosks now cond_k set_k rows_k =
       map (\<lambda>OLD. if cond_k OLD then update_kiosks_updated_at now (set_k OLD) else OLD) rows_k
   \<and> with_updated_at.updated_at (update_products_updated_at now NEW_p) = Some now
   \<and> with_updated_at.more (update_products_updated_at now NEW_p) = with_updated_at.more NEW_p
   \<and> update_products now cond_p set_p rows_p =
       map (\<lambda>OLD. if cond_p OLD then update_products_updated_at now (set_p OLD) else OLD) rows_p
   \<and> with_updated_at.updated_at (update_profiles_updated_at now NEW_f) = Some now
   \<and> with_updated_at.more (update_profiles_updated_at now NEW_f) = with_updated_at.more NEW_f
   \<and> update_profiles now cond_f set_f rows_f =
       map (\<lambda>OLD. if cond_f OLD then update_profiles_updated_at now (set_f OLD) else OLD) rows_f
   \<and> with_updated_at.updated_at (update_commands_updated_at now NEW_c) = Some now
   \<and> with_updated_at.more (update_commands_updated_at now NEW_c) = with_updated_at.more NEW_c
   \<and> update_blockchain_commands now cond_c set_c rows_c =
       map (\<lambda>OLD. if cond_c OLD then update_commands_updated_at now (set_c OLD) else OLD) rows_c"
  using trigger_sets_updated_at [of now NEW_r] trigger_sets_updated_at [of now NEW_k]
    trigger_sets_updated_at [of now NEW_p] trigger_sets_updated_at [of now NEW_f]
    trigger_sets_updated_at [of now NEW_c]
  by (simp add: update_redistributions_updated_at_def update_kiosks_updated_at_def
        update_products_updated_at_def update_profiles_updated_at_def
        update_commands_updated_at_def update_redistributions_def update_kiosks_def
        update_products_def update_profiles_def update_blockchain_commands_def sql_update_def)

text \<open>
  C9. \<^verbatim>\<open>getStatusColor\<close> is total over arbitrary status strings: every status outside
  the six cases of the switch gets \<^verbatim>\<open>bg-secondary\<close>, and so does the declared
  lifecycle state \<^verbatim>\<open>timed_out\<close>.
\<close>

theorem getStatusColor_default:
  "(s \<notin> {''requested'', ''approved'', ''submitted'', ''fulfilled'', ''reconciled'', ''failed''}
      \<longrightarrow> getStatusColor s = ''bg-secondary'')
   \<and> getStatusColor ''timed_out'' = ''bg-secondary''"
  by (simp add: getStatusColor_def)

theorem getStatusColor_default_witness:
  "''timed_out'' \<notin> {''requested'', ''approved'', ''submitted'', ''fulfilled'', ''reconciled'', ''failed''}
   \<and> getStatusColor ''timed_out'' = ''bg-secondary''"
  using getStatusColor_default [of "''timed_out''"] by simp

text \<open>
  C10. For every list of kiosk-inventory rows, the aggregation has each product id of
  the rows exactly once; the \<^verbatim>\<open>total_quantity\<close> of an entry is the sum of the
  quantities of the rows of its product, and its \<^verbatim>\<open>kiosks\<close> list has one entry of kiosk
  name and quantity per such row, in the order of the rows.
\<close>

theorem aggregate_by_product:
  "distinct (map aggregated.product_id (aggregate xs))
   \<and> set (map aggregated.product_id (aggregate xs)) = set (map KioskInventory.product_id xs)
   \<and> (\<forall>entry\<in>set (aggregate xs).
        total_quantity entry =
          sum_list (map KioskInventory.quantity
            (filter (\<lambda>i. KioskInventory.product_id i = aggregated.product_id entry) xs))
        \<and> aggregated.kiosks entry =
          map (\<lambda>i. \<lparr>kiosk_quantity.kiosk = kiosk_ref.name (KioskInventory.kiosks i),
                     kiosk_quantity.quantity = KioskInventory.quantity i\<rparr>)
            (filter (\<lambda>i. KioskInventory.product_id i = aggregated.product_id entry) xs))"
  using agg_inv_aggregate [of xs] by (simp add: agg_inv_def)

lemma aggregate_example:
  "aggregate example_inventory =
     [\<lparr>aggregated.product_id = ''p1'', product = (), total_quantity = 8,
       aggregated.kiosks = [\<lparr>kiosk_quantity.kiosk = ''A'', kiosk_quantity.quantity = 3\<rparr>,
                            \<lparr>kiosk_quantity.kiosk = ''C'', kiosk_quantity.quantity = 5\<rparr>]\<rparr>,
      \<lparr>aggregated.product_id = ''p2'', product = (), total_quantity = 4,
       aggregated.kiosks = [\<lparr>kiosk_quantity.kiosk = ''B'', kiosk_quantity.quantity = 4\<rparr>]\<rparr>]"
  by (simp add: aggregate_def aggregate_step_def example_inventory_def example_row_def)

theorem aggregate_by_product_witness:
  "\<lparr>aggregated.product_id = ''p1'', product = (), total_quantity = 8,
     aggregated.kiosks = [\<lparr>kiosk_quantity.kiosk = ''A'', kiosk_quantity.quantity = 3\<rparr>,
                          \<lparr>kiosk_quantity.kiosk = ''C'', kiosk_quantity.quantity = 5\<rparr>]\<rparr>
     \<in> set (aggregate example_inventory)
   \<and> sum_list (map KioskInventory.quantity
        (filter (\<lambda>i. KioskInventory.product_id i = ''p1'') example_inventory)) = 8
   \<and> map aggregated.product_id (aggregate example_inventory) = [''p1'', ''p2'']"
proof -
  have total: "sum_list (map KioskInventory.quantity
      (filter (\<lambda>i. KioskInventory.product_id i = ''p1'') example_inventory)) = 8"
    by (simp add: example_inventory_def example_row_def)
  from aggregate_by_product [of example_inventory] total show ?thesis
    by (simp add: aggregate_example)
qed


end
